theory Spec2Isabelle
  imports Main "HOL-Library.Sublist"
begin

section \<open>Python strings\<close>

text \<open>
  A Python \<open>str\<close> is a sequence of Unicode code points; a code point is modelled as a
  natural number and a string as the list of its code points. The literals of the source
  are ASCII and are written through \<open>str_lit\<close>.
\<close>

type_synonym pystr = "nat list"

definition str_lit :: "string \<Rightarrow> pystr" where
  "str_lit s = map of_char s"

text \<open>
  The classification of characters (\<open>str.isspace\<close>, \<open>str.isalnum\<close>) and the case
  mapping (\<open>str.lower\<close>) are those of the Python runtime. They are written out for the
  ASCII range; beyond it they come from the Unicode character database, which is not part
  of the repository and is taken as a parameter. The lower-case mapping of a non-ASCII
  character may depend on its context (final sigma), so it receives the characters before
  and after it.
\<close>

record unicode_db =
  uni_isspace :: "nat \<Rightarrow> bool"
  uni_isalnum :: "nat \<Rightarrow> bool"
  uni_lower :: "pystr \<Rightarrow> nat \<Rightarrow> pystr \<Rightarrow> pystr"

definition ascii_isspace :: "nat \<Rightarrow> bool" where
  "ascii_isspace c = ((9 \<le> c \<and> c \<le> 13) \<or> (28 \<le> c \<and> c \<le> 32))"

definition ascii_isalnum :: "nat \<Rightarrow> bool" where
  "ascii_isalnum c = ((48 \<le> c \<and> c \<le> 57) \<or> (65 \<le> c \<and> c \<le> 90) \<or> (97 \<le> c \<and> c \<le> 122))"

definition ascii_lower :: "nat \<Rightarrow> nat" where
  "ascii_lower c = (if 65 \<le> c \<and> c \<le> 90 then c + 32 else c)"

definition isspace :: "unicode_db \<Rightarrow> nat \<Rightarrow> bool" where
  "isspace db c = (if c < 128 then ascii_isspace c else uni_isspace db c)"

definition isalnum :: "unicode_db \<Rightarrow> nat \<Rightarrow> bool" where
  "isalnum db c = (if c < 128 then ascii_isalnum c else uni_isalnum db c)"

text \<open>\<open>s.strip()\<close>: whitespace removed at both ends.\<close>

definition strip :: "unicode_db \<Rightarrow> pystr \<Rightarrow> pystr" where
  "strip db s = rev (dropWhile (isspace db) (rev (dropWhile (isspace db) s)))"

text \<open>\<open>s.lower()\<close>, character by character, with the characters already passed.\<close>

fun lower_from :: "unicode_db \<Rightarrow> pystr \<Rightarrow> pystr \<Rightarrow> pystr" where
  "lower_from db seen [] = []"
| "lower_from db seen (c # cs) =
     (if c < 128 then [ascii_lower c] else uni_lower db seen c cs)
     @ lower_from db (seen @ [c]) cs"

definition lower :: "unicode_db \<Rightarrow> pystr \<Rightarrow> pystr" where
  "lower db s = lower_from db [] s"

text \<open>\<open>sub in s\<close> on strings: \<open>sub\<close> occurs in \<open>s\<close> as a contiguous piece.\<close>

fun str_in :: "pystr \<Rightarrow> pystr \<Rightarrow> bool" where
  "str_in sub [] = (sub = [])"
| "str_in sub (c # cs) = (prefix sub (c # cs) \<or> str_in sub cs)"

text \<open>\<open>str(i)\<close> for an integer: its decimal digits, with a minus sign when negative.\<close>

fun digits :: "nat \<Rightarrow> pystr" where
  "digits n = (if n < 10 then [48 + n] else digits (n div 10) @ [48 + n mod 10])"

definition str_int :: "int \<Rightarrow> pystr" where
  "str_int i = (if i < 0 then 45 # digits (nat (- i)) else digits (nat i))"

section \<open>utils/helpers.py: clean_text\<close>

text \<open>
  The values \<open>clean_text\<close> can receive. A value that is neither a string, \<open>None\<close>, a
  boolean nor an integer is given by the string that \<open>str\<close> returns on it.
\<close>

datatype pyval = PyStr pystr | PyNone | PyBool bool | PyInt int | PyObject pystr

fun isinstance_str :: "pyval \<Rightarrow> bool" where
  "isinstance_str (PyStr s) = True"
| "isinstance_str v = False"

fun py_str :: "pyval \<Rightarrow> pystr" where
  "py_str (PyStr s) = s"
| "py_str PyNone = str_lit ''None''"
| "py_str (PyBool b) = (if b then str_lit ''True'' else str_lit ''False'')"
| "py_str (PyInt i) = str_int i"
| "py_str (PyObject s) = s"

text \<open>
  \<open>re.sub(r'\s+', ' ', text)\<close>: every maximal run of whitespace characters is replaced
  by one space (code point 32).
\<close>

function sub_whitespace_runs :: "unicode_db \<Rightarrow> pystr \<Rightarrow> pystr" where
  "sub_whitespace_runs db [] = []"
| "sub_whitespace_runs db (c # cs) =
     (if isspace db c then 32 # sub_whitespace_runs db (dropWhile (isspace db) cs)
      else c # sub_whitespace_runs db cs)"
  by pat_completeness auto
termination
  by (relation "measure (\<lambda>(db, s). length s)") (auto simp: length_dropWhile_le less_Suc_eq_le)

text \<open>
  \<open>re.sub(r'[^\w\s.,$]', '', text)\<close>: a character is kept when it is a word character
  (alphanumeric or underscore), whitespace, a period, a comma or a dollar sign.
\<close>

definition kept_char :: "unicode_db \<Rightarrow> nat \<Rightarrow> bool" where
  "kept_char db c = (isalnum db c \<or> c = 95 \<or> isspace db c \<or> c = 46 \<or> c = 44 \<or> c = 36)"

definition sub_special_chars :: "unicode_db \<Rightarrow> pystr \<Rightarrow> pystr" where
  "sub_special_chars db s = filter (kept_char db) s"

definition clean_text :: "unicode_db \<Rightarrow> pyval \<Rightarrow> pystr" where
  "clean_text db text =
     (if \<not> isinstance_str text then py_str text
      else strip db (sub_special_chars db (sub_whitespace_runs db (py_str text))))"

text \<open>The properties of a cleaned string that the specification names.\<close>

fun no_consecutive_whitespace :: "unicode_db \<Rightarrow> pystr \<Rightarrow> bool" where
  "no_consecutive_whitespace db (c # d # cs) =
     (\<not> (isspace db c \<and> isspace db d) \<and> no_consecutive_whitespace db (d # cs))"
| "no_consecutive_whitespace db cs = True"

definition no_outer_whitespace :: "unicode_db \<Rightarrow> pystr \<Rightarrow> bool" where
  "no_outer_whitespace db s = (s = [] \<or> (\<not> isspace db (hd s) \<and> \<not> isspace db (last s)))"

section \<open>Exceptions, parsed documents and the network\<close>

text \<open>
  The exceptions that the scraper can meet. The first four are
  \<open>requests.RequestException\<close> and its subclasses (\<open>HTTPError\<close> with the status that
  \<open>raise_for_status\<close> rejected); \<open>AttributeError\<close> is what an attribute access on
  \<open>None\<close> raises; \<open>OtherError\<close> stands for any other subclass of \<open>Exception\<close>.
\<close>

datatype exn = HTTPError int | ConnectionError | Timeout | RequestException
  | AttributeError | OtherError

fun is_RequestException :: "exn \<Rightarrow> bool" where
  "is_RequestException (HTTPError status) = True"
| "is_RequestException ConnectionError = True"
| "is_RequestException Timeout = True"
| "is_RequestException RequestException = True"
| "is_RequestException AttributeError = False"
| "is_RequestException OtherError = False"

type_synonym 'a result = "exn + 'a"

definition and_then :: "'a result \<Rightarrow> ('a \<Rightarrow> 'b result) \<Rightarrow> 'b result" where
  "and_then r f = (case r of Inl e \<Rightarrow> Inl e | Inr v \<Rightarrow> f v)"

text \<open>
  A node of a parsed document (a BeautifulSoup \<open>Tag\<close>, or the document itself) is given
  by what the scraper asks of it: its \<open>.text\<close> and the answer of
  \<open>find_all(name, class_=...)\<close>. \<open>find\<close> returns the first node that \<open>find_all\<close>
  would, or \<open>None\<close>; reading \<open>.text\<close> of \<open>None\<close> raises.
\<close>

datatype tag = Tag (tag_text: pystr) (find_all: "string \<Rightarrow> string \<Rightarrow> tag list")

definition find_tag :: "tag \<Rightarrow> string \<Rightarrow> string \<Rightarrow> tag option" where
  "find_tag t name cls = (case find_all t name cls of [] \<Rightarrow> None | x # xs \<Rightarrow> Some x)"

fun text_of :: "tag option \<Rightarrow> pystr result" where
  "text_of None = Inl AttributeError"
| "text_of (Some t) = Inr (tag_text t)"

text \<open>
  The network answers the \<open>n\<close>-th request of a run, for a URL, with an exception or
  with a response: its status code and the document that \<open>html.parser\<close> builds from its
  body. What a run does to the outside is kept as a trace: the sleeps and the requests,
  in order. The log lines and the request headers have no part in any result and are left
  out.
\<close>

datatype http_outcome = Raises exn | Response int tag

type_synonym server = "nat \<Rightarrow> pystr \<Rightarrow> http_outcome"

datatype event = Sleep_uniform int int | Sleep int | Http_get pystr

record world =
  requests :: nat
  trace :: "event list"

definition emit :: "event \<Rightarrow> world \<Rightarrow> world" where
  "emit e w = w\<lparr>trace := trace w @ [e]\<rparr>"

definition session_get :: "server \<Rightarrow> pystr \<Rightarrow> world \<Rightarrow> http_outcome \<times> world" where
  "session_get srv url w =
     (srv (requests w) url, w\<lparr>requests := requests w + 1, trace := trace w @ [Http_get url]\<rparr>)"

text \<open>\<open>response.raise_for_status()\<close> raises for the statuses 400 to 599.\<close>

definition raise_for_status :: "int \<Rightarrow> unit result" where
  "raise_for_status status =
     (if 400 \<le> status \<and> status < 600 then Inl (HTTPError status) else Inr ())"

definition py_range :: "int \<Rightarrow> int list" where
  "py_range n = map int [0..<nat n]"

section \<open>scrapers/job_scraper.py: BaseScraper._get_soup\<close>

definition max_retries :: int where
  "max_retries = 3"

text \<open>
  The body of the \<open>for attempt in range(max_retries)\<close> loop, over the attempts that
  remain. Falling out of the loop returns \<open>None\<close>.
\<close>

fun get_soup_attempts ::
  "server \<Rightarrow> pystr \<Rightarrow> int list \<Rightarrow> int \<Rightarrow> world \<Rightarrow> tag option result \<times> world" where
  "get_soup_attempts srv url [] retry_delay w = (Inr None, w)"
| "get_soup_attempts srv url (attempt # rest) retry_delay w =
     (let w1 = emit (Sleep_uniform 2 5) w;
          (outcome, w2) = session_get srv url w1;
          response = (case outcome of
                        Raises e \<Rightarrow> Inl e
                      | Response status doc \<Rightarrow>
                          and_then (raise_for_status status) (\<lambda>u. Inr (status, doc)))
      in case response of
           Inr (status, doc) \<Rightarrow>
             if status = 200 then (Inr (Some doc), w2)
             else get_soup_attempts srv url rest retry_delay w2
         | Inl e \<Rightarrow>
             if is_RequestException e then
               (if attempt < max_retries - 1
                then get_soup_attempts srv url rest (retry_delay * 2) (emit (Sleep retry_delay) w2)
                else (Inl e, w2))
             else (Inl e, w2))"

definition get_soup :: "server \<Rightarrow> pystr \<Rightarrow> world \<Rightarrow> tag option result \<times> world" where
  "get_soup srv url w = get_soup_attempts srv url (py_range max_retries) 5 w"

text \<open>
  What makes an attempt fail in the sense of the \<open>except requests.RequestException\<close>
  clause: the request raised such an exception, or \<open>raise_for_status\<close> did.
\<close>

fun attempt_failure :: "http_outcome \<Rightarrow> exn option" where
  "attempt_failure (Raises e) = (if is_RequestException e then Some e else None)"
| "attempt_failure (Response status doc) =
     (if 400 \<le> status \<and> status < 600 then Some (HTTPError status) else None)"

declare get_soup_attempts.simps(2) [simp del]
declare digits.simps [simp del]

section \<open>scrapers/job_scraper.py: the extractors\<close>

text \<open>A job record is a Python dict with string keys, kept in insertion order.\<close>

type_synonym job_record = "(string \<times> pystr) list"

text \<open>The \<open>try\<close> block of \<open>IndeedScraper._extract_job_data\<close>, then the method.\<close>

definition IndeedScraper_extract_try :: "unicode_db \<Rightarrow> tag \<Rightarrow> job_record result" where
  "IndeedScraper_extract_try db job_element =
     and_then (text_of (find_tag job_element ''h2'' ''jobTitle'')) (\<lambda>t.
     let title = strip db t in
     and_then (text_of (find_tag job_element ''span'' ''companyName'')) (\<lambda>c.
     let company = strip db c in
     and_then (text_of (find_tag job_element ''div'' ''companyLocation'')) (\<lambda>l.
     let location = strip db l;
         salary = find_tag job_element ''div'' ''salary-snippet'';
         salary = (case salary of Some s \<Rightarrow> strip db (tag_text s)
                   | None \<Rightarrow> str_lit ''Not specified'')
     in Inr [(''title'', clean_text db (PyStr title)),
             (''company'', clean_text db (PyStr company)),
             (''location'', clean_text db (PyStr location)),
             (''salary'', clean_text db (PyStr salary)),
             (''source'', str_lit ''Indeed'')])))"

definition IndeedScraper_extract_job_data :: "unicode_db \<Rightarrow> tag \<Rightarrow> job_record result" where
  "IndeedScraper_extract_job_data db job_element =
     (case IndeedScraper_extract_try db job_element of
        Inr job_data \<Rightarrow> Inr job_data
      | Inl e \<Rightarrow> Inr [])"

text \<open>The job type that \<open>LinkedInScraper._extract_job_data\<close> reads off the title.\<close>

definition infer_job_type :: "unicode_db \<Rightarrow> pystr \<Rightarrow> pystr" where
  "infer_job_type db title =
     (let title_lower = lower db title in
      if list_ex (\<lambda>term. str_in term title_lower) [str_lit ''contract'', str_lit ''contractor'']
      then str_lit ''Contract''
      else if str_in (str_lit ''part-time'') title_lower then str_lit ''Part-time''
      else if str_in (str_lit ''intern'') title_lower then str_lit ''Internship''
      else if str_in (str_lit ''temporary'') title_lower then str_lit ''Temporary''
      else str_lit ''Full-time'')"

definition LinkedInScraper_extract_try :: "unicode_db \<Rightarrow> tag \<Rightarrow> job_record result" where
  "LinkedInScraper_extract_try db job_element =
     and_then (text_of (find_tag job_element ''h3'' ''base-search-card__title'')) (\<lambda>t.
     let title = strip db t in
     and_then (text_of (find_tag job_element ''h4'' ''base-search-card__subtitle'')) (\<lambda>c.
     let company = strip db c in
     and_then (text_of (find_tag job_element ''span'' ''job-search-card__location'')) (\<lambda>l.
     let location = strip db l;
         job_type = infer_job_type db title;
         salary_elem = find_tag job_element ''span'' ''job-search-card__salary-info'';
         salary = (case salary_elem of Some s \<Rightarrow> strip db (tag_text s)
                   | None \<Rightarrow> str_lit ''Not specified'')
     in Inr [(''title'', clean_text db (PyStr title)),
             (''company'', clean_text db (PyStr company)),
             (''location'', clean_text db (PyStr location)),
             (''salary'', clean_text db (PyStr salary)),
             (''job_type'', job_type),
             (''source'', str_lit ''LinkedIn'')])))"

definition LinkedInScraper_extract_job_data :: "unicode_db \<Rightarrow> tag \<Rightarrow> job_record result" where
  "LinkedInScraper_extract_job_data db job_element =
     (case LinkedInScraper_extract_try db job_element of
        Inr job_data \<Rightarrow> Inr job_data
      | Inl e \<Rightarrow> Inr [])"

text \<open>
  The same method with the function applied to the extracted texts as a parameter, so that
  the fields that go through it can be told from those that do not. With \<open>clean_text\<close>
  for the parameter it is the method above.
\<close>

definition LinkedInScraper_extract_try_with ::
  "(pyval \<Rightarrow> pystr) \<Rightarrow> unicode_db \<Rightarrow> tag \<Rightarrow> job_record result" where
  "LinkedInScraper_extract_try_with cleaner db job_element =
     and_then (text_of (find_tag job_element ''h3'' ''base-search-card__title'')) (\<lambda>t.
     let title = strip db t in
     and_then (text_of (find_tag job_element ''h4'' ''base-search-card__subtitle'')) (\<lambda>c.
     let company = strip db c in
     and_then (text_of (find_tag job_element ''span'' ''job-search-card__location'')) (\<lambda>l.
     let location = strip db l;
         job_type = infer_job_type db title;
         salary_elem = find_tag job_element ''span'' ''job-search-card__salary-info'';
         salary = (case salary_elem of Some s \<Rightarrow> strip db (tag_text s)
                   | None \<Rightarrow> str_lit ''Not specified'')
     in Inr [(''title'', cleaner (PyStr title)),
             (''company'', cleaner (PyStr company)),
             (''location'', cleaner (PyStr location)),
             (''salary'', cleaner (PyStr salary)),
             (''job_type'', job_type),
             (''source'', str_lit ''LinkedIn'')])))"

definition LinkedInScraper_extract_job_data_with ::
  "(pyval \<Rightarrow> pystr) \<Rightarrow> unicode_db \<Rightarrow> tag \<Rightarrow> job_record result" where
  "LinkedInScraper_extract_job_data_with cleaner db job_element =
     (case LinkedInScraper_extract_try_with cleaner db job_element of
        Inr job_data \<Rightarrow> Inr job_data
      | Inl e \<Rightarrow> Inr [])"

section \<open>scrapers/job_scraper.py: scrape_job_listings\<close>

text \<open>
  The two \<open>scrape_job_listings\<close> methods are the same text but for the page offset, the
  class of the job cards and the extractor that \<open>self._extract_job_data\<close> resolves to.
  A scraper object is given by these three.
\<close>

record scraper =
  page_offset :: int
  card_class :: string
  extract_job_data :: "unicode_db \<Rightarrow> tag \<Rightarrow> job_record result"

definition IndeedScraper :: scraper where
  "IndeedScraper = \<lparr>page_offset = 10, card_class = ''job_seen_beacon'',
                     extract_job_data = IndeedScraper_extract_job_data\<rparr>"

definition LinkedInScraper :: scraper where
  "LinkedInScraper = \<lparr>page_offset = 25, card_class = ''base-card'',
                       extract_job_data = LinkedInScraper_extract_job_data\<rparr>"

definition page_url :: "scraper \<Rightarrow> pystr \<Rightarrow> int \<Rightarrow> pystr" where
  "page_url sc url page = url @ str_lit ''&start='' @ str_int (page * page_offset sc)"

text \<open>
  The loop over the job cards of one page. The list \<open>jobs\<close> is mutated in place, so
  what was appended stays when an exception leaves the loop.
\<close>

fun append_jobs ::
  "(tag \<Rightarrow> job_record result) \<Rightarrow> tag list \<Rightarrow> job_record list \<Rightarrow> unit result \<times> job_record list" where
  "append_jobs extract [] jobs = (Inr (), jobs)"
| "append_jobs extract (job_element # rest) jobs =
     (case extract job_element of
        Inl e \<Rightarrow> (Inl e, jobs)
      | Inr job_data \<Rightarrow>
          append_jobs extract rest (if job_data \<noteq> [] then jobs @ [job_data] else jobs))"

text \<open>The \<open>try\<close> block of one page.\<close>

definition scrape_page ::
  "scraper \<Rightarrow> unicode_db \<Rightarrow> server \<Rightarrow> pystr \<Rightarrow> int \<Rightarrow> job_record list \<Rightarrow> world
     \<Rightarrow> unit result \<times> job_record list \<times> world" where
  "scrape_page sc db srv url page jobs w =
     (case get_soup srv (page_url sc url page) w of
        (Inl e, w1) \<Rightarrow> (Inl e, jobs, w1)
      | (Inr None, w1) \<Rightarrow> (Inl AttributeError, jobs, w1)
      | (Inr (Some soup), w1) \<Rightarrow>
          (case append_jobs (extract_job_data sc db) (find_all soup ''div'' (card_class sc)) jobs of
             (Inl e, jobs1) \<Rightarrow> (Inl e, jobs1, w1)
           | (Inr u, jobs1) \<Rightarrow> (Inr (), jobs1, emit (Sleep_uniform 1 3) w1)))"

text \<open>
  The loop over the pages: \<open>except Exception\<close> catches whatever the page raised and the
  loop goes on with the next page; after the last page the list is returned.
\<close>

fun scrape_pages ::
  "scraper \<Rightarrow> unicode_db \<Rightarrow> server \<Rightarrow> pystr \<Rightarrow> int list \<Rightarrow> job_record list \<Rightarrow> world
     \<Rightarrow> job_record list result \<times> world" where
  "scrape_pages sc db srv url [] jobs w = (Inr jobs, w)"
| "scrape_pages sc db srv url (page # rest) jobs w =
     (case scrape_page sc db srv url page jobs w of
        (Inl e, jobs1, w1) \<Rightarrow> scrape_pages sc db srv url rest jobs1 w1
      | (Inr u, jobs1, w1) \<Rightarrow> scrape_pages sc db srv url rest jobs1 w1)"

definition scrape_job_listings ::
  "scraper \<Rightarrow> unicode_db \<Rightarrow> server \<Rightarrow> pystr \<Rightarrow> int \<Rightarrow> world \<Rightarrow> job_record list result \<times> world" where
  "scrape_job_listings sc db srv url max_pages w =
     scrape_pages sc db srv url (py_range max_pages) [] w"

section \<open>Reading a run\<close>

text \<open>The URLs that a trace asked for, in order.\<close>

definition requested :: "event list \<Rightarrow> pystr list" where
  "requested tr = concat (map (\<lambda>e. case e of Http_get url \<Rightarrow> [url] | _ \<Rightarrow> []) tr)"

text \<open>
  The specification's reading of the pagination driver, in two parts. First the pages are
  fetched in the order of their index, with the short sleep after each page that was
  obtained; a page that failed leaves \<open>None\<close>. Then the records of a page are those of
  its job cards, in the order of the cards, without the empty ones.
\<close>

fun fetch_pages ::
  "scraper \<Rightarrow> server \<Rightarrow> pystr \<Rightarrow> int list \<Rightarrow> world \<Rightarrow> tag option list \<times> world" where
  "fetch_pages sc srv url [] w = ([], w)"
| "fetch_pages sc srv url (page # rest) w =
     (case get_soup srv (page_url sc url page) w of
        (Inr (Some soup), w1) \<Rightarrow>
          (let (soups, w2) = fetch_pages sc srv url rest (emit (Sleep_uniform 1 3) w1)
           in (Some soup # soups, w2))
      | (r, w1) \<Rightarrow>
          (let (soups, w2) = fetch_pages sc srv url rest w1 in (None # soups, w2)))"

definition page_records :: "scraper \<Rightarrow> unicode_db \<Rightarrow> tag option \<Rightarrow> job_record list" where
  "page_records sc db soup =
     (case soup of
        None \<Rightarrow> []
      | Some doc \<Rightarrow>
          filter (\<lambda>job_data. job_data \<noteq> [])
            (map (\<lambda>el. case extract_job_data sc db el of Inr job_data \<Rightarrow> job_data | Inl e \<Rightarrow> [])
               (find_all doc ''div'' (card_class sc))))"

text \<open>The field names of a complete record of each site.\<close>

definition IndeedScraper_fields :: "string list" where
  "IndeedScraper_fields = [''title'', ''company'', ''location'', ''salary'', ''source'']"

definition LinkedInScraper_fields :: "string list" where
  "LinkedInScraper_fields =
     [''title'', ''company'', ''location'', ''salary'', ''job_type'', ''source'']"

section \<open>Fixtures\<close>

text \<open>
  Concrete inputs for the examples below: a character database that knows ASCII only, small
  documents given by the nodes each selector finds, and servers that answer every request
  in the same way.
\<close>

definition ascii_db :: unicode_db where
  "ascii_db = \<lparr>uni_isspace = (\<lambda>c. False), uni_isalnum = (\<lambda>c. False),
                uni_lower = (\<lambda>seen c rest. [c])\<rparr>"

definition leaf :: "string \<Rightarrow> tag" where
  "leaf s = Tag (str_lit s) (\<lambda>name cls. [])"

definition node :: "((string \<times> string) \<times> tag list) list \<Rightarrow> tag" where
  "node found = Tag [] (\<lambda>name cls. case map_of found (name, cls) of None \<Rightarrow> [] | Some ts \<Rightarrow> ts)"

definition indeed_card :: tag where
  "indeed_card = node [((''h2'', ''jobTitle''), [leaf '' Data Engineer '']),
                       ((''span'', ''companyName''), [leaf ''Acme, Inc.'']),
                       ((''div'', ''companyLocation''), [leaf ''Oslo''])]"

definition indeed_card_paid :: tag where
  "indeed_card_paid = node [((''h2'', ''jobTitle''), [leaf ''Analyst'']),
                            ((''span'', ''companyName''), [leaf ''Initech'']),
                            ((''div'', ''companyLocation''), [leaf ''Bergen'']),
                            ((''div'', ''salary-snippet''), [leaf ''$90,000''])]"

definition indeed_card_no_title :: tag where
  "indeed_card_no_title = node [((''span'', ''companyName''), [leaf ''Acme, Inc.'']),
                                ((''div'', ''companyLocation''), [leaf ''Oslo''])]"

definition indeed_page :: tag where
  "indeed_page =
     node [((''div'', ''job_seen_beacon''), [indeed_card, indeed_card_no_title, indeed_card_paid])]"

definition linkedin_card :: tag where
  "linkedin_card = node [((''h3'', ''base-search-card__title''), [leaf ''Contract Engineer'']),
                         ((''h4'', ''base-search-card__subtitle''), [leaf ''Globex'']),
                         ((''span'', ''job-search-card__location''), [leaf ''Remote''])]"

definition linkedin_card_no_company :: tag where
  "linkedin_card_no_company =
     node [((''h3'', ''base-search-card__title''), [leaf ''Clerk'']),
           ((''span'', ''job-search-card__location''), [leaf ''Remote''])]"

definition linkedin_page :: tag where
  "linkedin_page = node [((''div'', ''base-card''), [linkedin_card_no_company, linkedin_card])]"

definition server_down :: server where
  "server_down n url = Raises ConnectionError"

definition server_status :: "int \<Rightarrow> tag \<Rightarrow> server" where
  "server_status status doc n url = Response status doc"

definition first_world :: world where
  "first_world = \<lparr>requests = 0, trace = []\<rparr>"

definition server_once :: "tag \<Rightarrow> server" where
  "server_once doc n url = (if n = 0 then Response 200 doc else Raises Timeout)"

definition example_url :: pystr where
  "example_url = str_lit ''https://example.org/jobs?q=data''"

section \<open>Python strings: facts used below\<close>

lemma str_lit_simps: "str_lit [] = []" "str_lit (c # cs) = of_char c # str_lit cs"
  by (simp_all add: str_lit_def)

lemmas lit_eval = str_lit_simps ascii_lower_def

lemmas clean_eval = clean_text_def str_lit_simps sub_special_chars_def kept_char_def isspace_def
  isalnum_def ascii_isspace_def ascii_isalnum_def strip_def

lemma str_in_sublist: "str_in sub s = sublist sub s"
  by (induction s) (simp_all add: sublist_Cons_right)

lemma lower_from_ascii:
  "\<forall>c\<in>set m. c < 128 \<Longrightarrow>
   lower_from db seen (m @ rest) = map ascii_lower m @ lower_from db (seen @ m) rest"
  by (induction m arbitrary: seen) simp_all

lemma sublist_lower_from:
  "\<forall>c\<in>set m. c < 128 \<Longrightarrow>
   sublist (map ascii_lower m) (lower_from db seen (pre @ m @ post))"
proof (induction pre arbitrary: seen)
  case Nil
  then show ?case by (simp add: lower_from_ascii)
next
  case (Cons c pre)
  have "sublist (map ascii_lower m) (lower_from db (seen @ [c]) (pre @ m @ post))"
    using Cons by blast
  then obtain ps ss where
    "lower_from db (seen @ [c]) (pre @ m @ post) = ps @ map ascii_lower m @ ss"
    unfolding sublist_def by blast
  then have "lower_from db seen ((c # pre) @ m @ post) =
      ((if c < 128 then [ascii_lower c] else uni_lower db seen c (pre @ m @ post)) @ ps)
        @ map ascii_lower m @ ss"
    by simp
  then show ?case
    unfolding sublist_def by blast
qed

lemma sublist_lower:
  assumes "\<forall>c\<in>set kw. c < 128" and "sublist kw title"
  shows "sublist (map ascii_lower kw) (lower db title)"
proof -
  from assms(2) obtain pre post where "title = pre @ kw @ post"
    unfolding sublist_def by blast
  with assms(1) show ?thesis
    by (simp add: lower_def sublist_lower_from)
qed

lemma lower_ascii_lit: "\<forall>c\<in>set s. c < 128 \<Longrightarrow> lower db s = map ascii_lower s"
  using lower_from_ascii[of s db "[]" "[]"] by (simp add: lower_def)

lemma py_range_max_retries: "py_range max_retries = [0, 1, 2]"
  by (simp add: py_range_def max_retries_def upt_rec)

lemma py_range_numeral: "py_range 1 = [0]" "py_range 2 = [0, 1]" "py_range 3 = [0, 1, 2]"
  by (simp_all add: py_range_def upt_rec)

section \<open>clean_text\<close>

lemma set_strip: "set (strip db s) \<subseteq> set s"
proof -
  have "set (strip db s) \<subseteq> set (dropWhile (isspace db) s)"
    unfolding strip_def using set_dropWhileD[of _ "isspace db" "rev (dropWhile (isspace db) s)"]
    by auto
  also have "\<dots> \<subseteq> set s" using set_dropWhileD[of _ "isspace db" s] by auto
  finally show ?thesis .
qed

text \<open>
  Two of the three properties that the specification gives for a cleaned string hold for
  every string: its characters are word characters, whitespace, periods, commas or dollar
  signs, and it neither starts nor ends with whitespace.
\<close>

lemma clean_text_kept_chars: "c \<in> set (clean_text db (PyStr s)) \<Longrightarrow> kept_char db c"
  using set_strip[of db "sub_special_chars db (sub_whitespace_runs db s)"]
  by (auto simp: clean_text_def sub_special_chars_def)

lemma strip_no_outer: "no_outer_whitespace db (strip db s)"
proof (cases "strip db s = []")
  case True
  then show ?thesis by (simp add: no_outer_whitespace_def)
next
  case False
  define a where "a = dropWhile (isspace db) s"
  define b where "b = dropWhile (isspace db) (rev a)"
  have st: "strip db s = rev b" by (simp add: strip_def a_def b_def)
  from False st have b: "b \<noteq> []" by simp
  have a: "a \<noteq> []" using b unfolding b_def by (cases a) simp_all
  have nl: "\<not> isspace db (hd b)" using b unfolding b_def by (simp add: hd_dropWhile)
  have na: "\<not> isspace db (hd a)" using a unfolding a_def by (simp add: hd_dropWhile)
  have "rev a = takeWhile (isspace db) (rev a) @ b" by (simp add: b_def)
  then have "last (rev a) = last b" using b by (metis last_appendR)
  then have "last b = hd a" using a by (simp add: last_rev)
  then have "hd (rev b) = hd a" using b by (simp add: hd_rev)
  moreover have "last (rev b) = hd b" using b by (simp add: last_rev)
  ultimately show ?thesis using False na nl st by (simp add: no_outer_whitespace_def)
qed

lemma clean_text_stripped: "no_outer_whitespace db (clean_text db (PyStr s))"
  by (simp add: clean_text_def strip_no_outer)

lemma not_kept_hyphen: "\<not> kept_char db 45"
  by (simp add: kept_char_def isalnum_def isspace_def ascii_isalnum_def ascii_isspace_def)

lemma clean_text_no_hyphen: "45 \<notin> set (clean_text db (PyStr raw))"
  using clean_text_kept_chars[of 45 db raw] not_kept_hyphen[of db] by blast

lemma clean_text_not_hyphenated:
  "clean_text db (PyStr raw) \<noteq> str_lit ''Full-time''"
  "clean_text db (PyStr raw) \<noteq> str_lit ''Part-time''"
proof -
  have "45 \<in> set (str_lit ''Full-time'')" "45 \<in> set (str_lit ''Part-time'')"
    by (simp_all add: str_lit_simps)
  then show "clean_text db (PyStr raw) \<noteq> str_lit ''Full-time''"
    "clean_text db (PyStr raw) \<noteq> str_lit ''Part-time''"
    using clean_text_no_hyphen[of db raw] by metis+
qed

lemma clean_text_Not_specified:
  "clean_text db (PyStr (str_lit ''Not specified'')) = str_lit ''Not specified''"
  by (simp add: clean_eval)

lemma clean_text_LinkedIn:
  "clean_text db (PyStr (str_lit ''LinkedIn'')) = str_lit ''LinkedIn''"
  by (simp add: clean_eval)

text \<open>
  Claim C5 says that the output of \<open>clean_text\<close> on a string never has two whitespace
  characters in a row. The whitespace runs are collapsed before the special characters are
  removed, so a special character that stood between two spaces leaves them side by side:
  on \<open>'Engineer - Backend'\<close> the function returns \<open>'Engineer  Backend'\<close>, with two
  spaces, for every character database.
\<close>

theorem clean_text_consecutive_whitespace:
  "clean_text db (PyStr (str_lit ''Engineer - Backend'')) = str_lit ''Engineer  Backend'' \<and>
   \<not> no_consecutive_whitespace db (clean_text db (PyStr (str_lit ''Engineer - Backend'')))"
  by (simp add: clean_eval)

text \<open>
  Claim C6 says that a value that is not a string is turned into its string form and then
  cleaned like a string. The integer \<open>-5\<close> shows otherwise: \<open>clean_text\<close> returns
  \<open>'-5'\<close>, while collapsing and filtering \<open>'-5'\<close> gives \<open>'5'\<close>, which is also what
  \<open>clean_text\<close> returns on the string \<open>'-5'\<close>.
\<close>

theorem clean_text_nonstring_counterexample:
  "clean_text ascii_db (PyInt (- 5)) = str_lit ''-5'' \<and>
   sub_special_chars ascii_db (sub_whitespace_runs ascii_db (py_str (PyInt (- 5)))) = str_lit ''5'' \<and>
   clean_text ascii_db (PyInt (- 5)) \<noteq> clean_text ascii_db (PyStr (py_str (PyInt (- 5))))"
  by (simp add: clean_eval str_int_def digits.simps)

text \<open>
  Claim C6 as the code has it: for every value that is not a string, \<open>clean_text\<close>
  returns the string form of the value as it is. The \<open>isinstance\<close> guard returns before
  any collapsing, filtering or stripping.
\<close>

theorem clean_text_nonstring_is_str:
  "\<not> isinstance_str v \<Longrightarrow> clean_text db v = py_str v"
  by (simp add: clean_text_def)

text \<open>
  Claim C6, an instance: the integer \<open>-5\<close> is not a string and comes back as \<open>'-5'\<close>.
\<close>

theorem clean_text_nonstring_is_str_witness:
  "\<not> isinstance_str (PyInt (- 5)) \<and> clean_text ascii_db (PyInt (- 5)) = str_lit ''-5''"
  using clean_text_nonstring_is_str[of "PyInt (- 5)" ascii_db]
  by (simp add: str_int_def digits.simps str_lit_simps)

section \<open>The job type of a title\<close>

lemma infer_job_type_sublist:
  "infer_job_type db title =
     (if sublist (str_lit ''contract'') (lower db title) \<or> sublist (str_lit ''contractor'') (lower db title)
      then str_lit ''Contract''
      else if sublist (str_lit ''part-time'') (lower db title) then str_lit ''Part-time''
      else if sublist (str_lit ''intern'') (lower db title) then str_lit ''Internship''
      else if sublist (str_lit ''temporary'') (lower db title) then str_lit ''Temporary''
      else str_lit ''Full-time'')"
  by (simp add: infer_job_type_def Let_def str_in_sublist)

lemma infer_job_type_contract_engineer:
  assumes "sublist (str_lit ''Contract Engineer'') title"
  shows "infer_job_type db title = str_lit ''Contract''"
proof -
  have "sublist (str_lit ''Contract'') (str_lit ''Contract Engineer'')"
    by (simp add: str_lit_def sublist_append_rightI[of _ "map of_char '' Engineer''", simplified])
  then have "sublist (str_lit ''Contract'') title" using assms
    by (rule sublist_order.order.trans)
  moreover have "\<forall>c\<in>set (str_lit ''Contract''). c < 128" by (simp add: str_lit_simps)
  ultimately have "sublist (map ascii_lower (str_lit ''Contract'')) (lower db title)"
    by (rule sublist_lower[rotated])
  moreover have "map ascii_lower (str_lit ''Contract'') = str_lit ''contract''"
    by (simp add: lit_eval)
  ultimately show ?thesis by (simp add: infer_job_type_sublist)
qed

lemma infer_job_type_part_time_analyst: "infer_job_type db (str_lit ''Part-time Analyst'') = str_lit ''Part-time''"
  by (simp add: infer_job_type_def lower_ascii_lit lit_eval)

lemma infer_job_type_software_engineer: "infer_job_type db (str_lit ''Software Engineer'') = str_lit ''Full-time''"
  by (simp add: infer_job_type_def lower_ascii_lit lit_eval)

lemma infer_job_type_range:
  "infer_job_type db title \<in> {str_lit ''Full-time'', str_lit ''Contract'', str_lit ''Part-time'',
      str_lit ''Internship'', str_lit ''Temporary''}"
  by (simp add: infer_job_type_def Let_def)

text \<open>
  Claim C7: the job type that the LinkedIn extractor infers from a title. The lowered title
  is searched for the keywords in a fixed order: \<open>contract\<close> or \<open>contractor\<close> gives
  \<open>Contract\<close>, else \<open>part-time\<close> gives \<open>Part-time\<close>, else \<open>intern\<close> gives
  \<open>Internship\<close>, else \<open>temporary\<close> gives \<open>Temporary\<close>, else the type is
  \<open>Full-time\<close>. The search does not see the case of ASCII letters: where a piece
  \<open>kw\<close> of ASCII characters occurs in the title, its lower-case form occurs in the
  lowered title. So every title that contains \<open>Contract Engineer\<close> gives \<open>Contract\<close>;
  the title \<open>Part-time Analyst\<close> gives \<open>Part-time\<close>, and \<open>Software Engineer\<close>, which has
  none of the keywords, gives \<open>Full-time\<close>.
\<close>

theorem infer_job_type_precedence:
  "infer_job_type db title =
     (if sublist (str_lit ''contract'') (lower db title) \<or> sublist (str_lit ''contractor'') (lower db title)
      then str_lit ''Contract''
      else if sublist (str_lit ''part-time'') (lower db title) then str_lit ''Part-time''
      else if sublist (str_lit ''intern'') (lower db title) then str_lit ''Internship''
      else if sublist (str_lit ''temporary'') (lower db title) then str_lit ''Temporary''
      else str_lit ''Full-time'') \<and>
   ((\<forall>c\<in>set kw. c < 128) \<and> sublist kw title \<longrightarrow> sublist (map ascii_lower kw) (lower db title)) \<and>
   (sublist (str_lit ''Contract Engineer'') title \<longrightarrow> infer_job_type db title = str_lit ''Contract'') \<and>
   infer_job_type db (str_lit ''Part-time Analyst'') = str_lit ''Part-time'' \<and>
   infer_job_type db (str_lit ''Software Engineer'') = str_lit ''Full-time''"
  using infer_job_type_sublist[of db title] sublist_lower[of kw title db] infer_job_type_contract_engineer[of title db]
    infer_job_type_part_time_analyst[of db] infer_job_type_software_engineer[of db]
  by blast

text \<open>
  Claim C7, an instance: the title \<open>Senior Contract Engineer (CONTRACT)\<close> contains
  \<open>Contract Engineer\<close> and the ASCII piece \<open>CONTRACT\<close>; its lowered form contains
  \<open>contract\<close> and its job type is \<open>Contract\<close>.
\<close>

theorem infer_job_type_precedence_witness:
  "list_all (\<lambda>c. c < 128) (str_lit ''CONTRACT'') \<and>
   sublist (str_lit ''CONTRACT'') (str_lit ''Senior Contract Engineer (CONTRACT)'') \<and>
   sublist (str_lit ''Contract Engineer'') (str_lit ''Senior Contract Engineer (CONTRACT)'') \<and>
   sublist (str_lit ''contract'') (lower ascii_db (str_lit ''Senior Contract Engineer (CONTRACT)'')) \<and>
   infer_job_type ascii_db (str_lit ''Senior Contract Engineer (CONTRACT)'') = str_lit ''Contract''"
  using infer_job_type_precedence[of ascii_db "str_lit ''Senior Contract Engineer (CONTRACT)''" "str_lit ''CONTRACT''"]
  by (simp add: str_in_sublist[symmetric] lit_eval list_all_iff)

section \<open>The extractors\<close>

lemma IndeedScraper_extract_returns: "\<exists>job_data. IndeedScraper_extract_job_data db el = Inr job_data"
  by (simp add: IndeedScraper_extract_job_data_def split: sum.split)

lemma LinkedInScraper_extract_returns: "\<exists>job_data. LinkedInScraper_extract_job_data db el = Inr job_data"
  by (simp add: LinkedInScraper_extract_job_data_def split: sum.split)

lemma IndeedScraper_extract_missing:
  "find_tag el ''h2'' ''jobTitle'' = None \<or> find_tag el ''span'' ''companyName'' = None
     \<or> find_tag el ''div'' ''companyLocation'' = None
   \<Longrightarrow> IndeedScraper_extract_job_data db el = Inr []"
  by (auto simp: IndeedScraper_extract_job_data_def IndeedScraper_extract_try_def and_then_def Let_def
      split: sum.split option.split)

lemma LinkedInScraper_extract_missing:
  "find_tag el ''h3'' ''base-search-card__title'' = None
     \<or> find_tag el ''h4'' ''base-search-card__subtitle'' = None
     \<or> find_tag el ''span'' ''job-search-card__location'' = None
   \<Longrightarrow> LinkedInScraper_extract_job_data db el = Inr []"
  by (auto simp: LinkedInScraper_extract_job_data_def LinkedInScraper_extract_try_def and_then_def Let_def
      split: sum.split option.split)

lemma IndeedScraper_extract_present:
  assumes "find_tag el ''h2'' ''jobTitle'' = Some t"
    and "find_tag el ''span'' ''companyName'' = Some c"
    and "find_tag el ''div'' ''companyLocation'' = Some l"
  shows "IndeedScraper_extract_job_data db el = Inr
     [(''title'', clean_text db (PyStr (strip db (tag_text t)))),
      (''company'', clean_text db (PyStr (strip db (tag_text c)))),
      (''location'', clean_text db (PyStr (strip db (tag_text l)))),
      (''salary'', clean_text db (PyStr (case find_tag el ''div'' ''salary-snippet'' of
                      Some s \<Rightarrow> strip db (tag_text s) | None \<Rightarrow> str_lit ''Not specified''))),
      (''source'', str_lit ''Indeed'')]"
  using assms
  by (simp add: IndeedScraper_extract_job_data_def IndeedScraper_extract_try_def and_then_def Let_def)

lemma LinkedInScraper_extract_present:
  assumes "find_tag el ''h3'' ''base-search-card__title'' = Some t"
    and "find_tag el ''h4'' ''base-search-card__subtitle'' = Some c"
    and "find_tag el ''span'' ''job-search-card__location'' = Some l"
  shows "LinkedInScraper_extract_job_data db el = Inr
     [(''title'', clean_text db (PyStr (strip db (tag_text t)))),
      (''company'', clean_text db (PyStr (strip db (tag_text c)))),
      (''location'', clean_text db (PyStr (strip db (tag_text l)))),
      (''salary'', clean_text db (PyStr (case find_tag el ''span'' ''job-search-card__salary-info'' of
                      Some s \<Rightarrow> strip db (tag_text s) | None \<Rightarrow> str_lit ''Not specified''))),
      (''job_type'', infer_job_type db (strip db (tag_text t))),
      (''source'', str_lit ''LinkedIn'')]"
  using assms
  by (simp add: LinkedInScraper_extract_job_data_def LinkedInScraper_extract_try_def and_then_def Let_def)

lemma IndeedScraper_extract_cases:
  "IndeedScraper_extract_job_data db el = Inr [] \<or>
   (\<exists>t c l. find_tag el ''h2'' ''jobTitle'' = Some t \<and> find_tag el ''span'' ''companyName'' = Some c
      \<and> find_tag el ''div'' ''companyLocation'' = Some l)"
  using IndeedScraper_extract_missing[of el db] by (cases "find_tag el ''h2'' ''jobTitle''";
    cases "find_tag el ''span'' ''companyName''"; cases "find_tag el ''div'' ''companyLocation''") simp_all

lemma LinkedInScraper_extract_cases:
  "LinkedInScraper_extract_job_data db el = Inr [] \<or>
   (\<exists>t c l. find_tag el ''h3'' ''base-search-card__title'' = Some t
      \<and> find_tag el ''h4'' ''base-search-card__subtitle'' = Some c
      \<and> find_tag el ''span'' ''job-search-card__location'' = Some l)"
  using LinkedInScraper_extract_missing[of el db] by (cases "find_tag el ''h3'' ''base-search-card__title''";
    cases "find_tag el ''h4'' ''base-search-card__subtitle''";
    cases "find_tag el ''span'' ''job-search-card__location''") simp_all

lemma IndeedScraper_extract_fields:
  "IndeedScraper_extract_job_data db el = Inr r \<Longrightarrow> r \<noteq> [] \<Longrightarrow> map fst r = IndeedScraper_fields"
  using IndeedScraper_extract_cases[of db el] IndeedScraper_extract_present[of el _ _ _ db]
  by (auto simp: IndeedScraper_fields_def)

lemma LinkedInScraper_extract_fields:
  "LinkedInScraper_extract_job_data db el = Inr r \<Longrightarrow> r \<noteq> [] \<Longrightarrow> map fst r = LinkedInScraper_fields"
  using LinkedInScraper_extract_cases[of db el] LinkedInScraper_extract_present[of el _ _ _ db]
  by (auto simp: LinkedInScraper_fields_def)

lemma append_jobs_skip:
  "extract el = Inr [] \<Longrightarrow> append_jobs extract [el] jobs = (Inr (), jobs)"
  by simp

lemma find_tag_node: "find_tag (node kids) name cls = (case map_of kids (name, cls) of None \<Rightarrow> None
   | Some ts \<Rightarrow> (case ts of [] \<Rightarrow> None | x # xs \<Rightarrow> Some x))"
  by (simp add: find_tag_def node_def split: option.split)

lemma indeed_card_record: "IndeedScraper_extract_job_data ascii_db indeed_card = Inr
   [(''title'', str_lit ''Data Engineer''), (''company'', str_lit ''Acme, Inc.''),
    (''location'', str_lit ''Oslo''), (''salary'', str_lit ''Not specified''),
    (''source'', str_lit ''Indeed'')]"
  by (simp add: IndeedScraper_extract_job_data_def IndeedScraper_extract_try_def and_then_def
      indeed_card_def node_def leaf_def find_tag_def clean_eval ascii_db_def)

lemma indeed_card_no_title_record: "IndeedScraper_extract_job_data ascii_db indeed_card_no_title = Inr []"
  by (simp add: IndeedScraper_extract_job_data_def IndeedScraper_extract_try_def and_then_def
      indeed_card_no_title_def node_def leaf_def find_tag_def)

lemma indeed_card_paid_record: "IndeedScraper_extract_job_data ascii_db indeed_card_paid = Inr
   [(''title'', str_lit ''Analyst''), (''company'', str_lit ''Initech''),
    (''location'', str_lit ''Bergen''), (''salary'', str_lit ''$90,000''),
    (''source'', str_lit ''Indeed'')]"
  by (simp add: IndeedScraper_extract_job_data_def IndeedScraper_extract_try_def and_then_def
      indeed_card_paid_def node_def leaf_def find_tag_def clean_eval ascii_db_def)

lemma linkedin_card_record: "LinkedInScraper_extract_job_data ascii_db linkedin_card = Inr
   [(''title'', str_lit ''Contract Engineer''), (''company'', str_lit ''Globex''),
    (''location'', str_lit ''Remote''), (''salary'', str_lit ''Not specified''),
    (''job_type'', str_lit ''Contract''),
    (''source'', str_lit ''LinkedIn'')]"
  by (simp add: LinkedInScraper_extract_job_data_def LinkedInScraper_extract_try_def and_then_def
      linkedin_card_def node_def leaf_def find_tag_def clean_eval ascii_db_def
      infer_job_type_def lower_ascii_lit lit_eval)

lemma linkedin_card_no_company_record: "LinkedInScraper_extract_job_data ascii_db linkedin_card_no_company = Inr []"
  by (simp add: LinkedInScraper_extract_job_data_def LinkedInScraper_extract_try_def and_then_def
      linkedin_card_no_company_def node_def leaf_def find_tag_def)

lemma IndeedScraper_extract_record:
  assumes "IndeedScraper_extract_job_data db el = Inr job_data" and "job_data \<noteq> []"
  shows "\<exists>t c l. find_tag el ''h2'' ''jobTitle'' = Some t \<and>
      find_tag el ''span'' ''companyName'' = Some c \<and>
      find_tag el ''div'' ''companyLocation'' = Some l \<and>
      job_data =
        [(''title'', clean_text db (PyStr (strip db (tag_text t)))),
         (''company'', clean_text db (PyStr (strip db (tag_text c)))),
         (''location'', clean_text db (PyStr (strip db (tag_text l)))),
         (''salary'', (case find_tag el ''div'' ''salary-snippet'' of
                         Some s \<Rightarrow> clean_text db (PyStr (strip db (tag_text s)))
                       | None \<Rightarrow> str_lit ''Not specified'')),
         (''source'', str_lit ''Indeed'')]"
proof -
  from assms IndeedScraper_extract_cases[of db el] obtain t c l where
    f: "find_tag el ''h2'' ''jobTitle'' = Some t"
       "find_tag el ''span'' ''companyName'' = Some c"
       "find_tag el ''div'' ''companyLocation'' = Some l"
    by auto
  have s: "clean_text db (PyStr (case find_tag el ''div'' ''salary-snippet'' of
                      Some s \<Rightarrow> strip db (tag_text s) | None \<Rightarrow> str_lit ''Not specified''))
      = (case find_tag el ''div'' ''salary-snippet'' of
           Some s \<Rightarrow> clean_text db (PyStr (strip db (tag_text s)))
         | None \<Rightarrow> str_lit ''Not specified'')"
    by (simp add: clean_text_Not_specified split: option.split)
  from IndeedScraper_extract_present[OF f, of db] assms(1) s f show ?thesis
    by (intro exI[of _ t] exI[of _ c] exI[of _ l]) simp
qed

lemma LinkedInScraper_extract_record:
  assumes "LinkedInScraper_extract_job_data db el = Inr job_data" and "job_data \<noteq> []"
  shows "\<exists>t c l. find_tag el ''h3'' ''base-search-card__title'' = Some t \<and>
      find_tag el ''h4'' ''base-search-card__subtitle'' = Some c \<and>
      find_tag el ''span'' ''job-search-card__location'' = Some l \<and>
      job_data =
        [(''title'', clean_text db (PyStr (strip db (tag_text t)))),
         (''company'', clean_text db (PyStr (strip db (tag_text c)))),
         (''location'', clean_text db (PyStr (strip db (tag_text l)))),
         (''salary'', (case find_tag el ''span'' ''job-search-card__salary-info'' of
                         Some s \<Rightarrow> clean_text db (PyStr (strip db (tag_text s)))
                       | None \<Rightarrow> str_lit ''Not specified'')),
         (''job_type'', infer_job_type db (strip db (tag_text t))),
         (''source'', str_lit ''LinkedIn'')]"
proof -
  from assms LinkedInScraper_extract_cases[of db el] obtain t c l where
    f: "find_tag el ''h3'' ''base-search-card__title'' = Some t"
       "find_tag el ''h4'' ''base-search-card__subtitle'' = Some c"
       "find_tag el ''span'' ''job-search-card__location'' = Some l"
    by auto
  have s: "clean_text db (PyStr (case find_tag el ''span'' ''job-search-card__salary-info'' of
                      Some s \<Rightarrow> strip db (tag_text s) | None \<Rightarrow> str_lit ''Not specified''))
      = (case find_tag el ''span'' ''job-search-card__salary-info'' of
           Some s \<Rightarrow> clean_text db (PyStr (strip db (tag_text s)))
         | None \<Rightarrow> str_lit ''Not specified'')"
    by (simp add: clean_text_Not_specified split: option.split)
  from LinkedInScraper_extract_present[OF f, of db] assms(1) s f show ?thesis
    by (intro exI[of _ t] exI[of _ c] exI[of _ l]) simp
qed

lemma LinkedInScraper_extract_with_clean_text:
  "LinkedInScraper_extract_job_data db el = LinkedInScraper_extract_job_data_with (clean_text db) db el"
  by (simp add: LinkedInScraper_extract_job_data_def LinkedInScraper_extract_job_data_with_def
      LinkedInScraper_extract_try_def LinkedInScraper_extract_try_with_def)

lemma LinkedInScraper_extract_with_missing:
  "find_tag el ''h3'' ''base-search-card__title'' = None
     \<or> find_tag el ''h4'' ''base-search-card__subtitle'' = None
     \<or> find_tag el ''span'' ''job-search-card__location'' = None
   \<Longrightarrow> LinkedInScraper_extract_job_data_with cleaner db el = Inr []"
  by (auto simp: LinkedInScraper_extract_job_data_with_def LinkedInScraper_extract_try_with_def
      and_then_def Let_def split: sum.split option.split)

lemma LinkedInScraper_extract_with_present:
  assumes "find_tag el ''h3'' ''base-search-card__title'' = Some t"
    and "find_tag el ''h4'' ''base-search-card__subtitle'' = Some c"
    and "find_tag el ''span'' ''job-search-card__location'' = Some l"
  shows "LinkedInScraper_extract_job_data_with cleaner db el = Inr
     [(''title'', cleaner (PyStr (strip db (tag_text t)))),
      (''company'', cleaner (PyStr (strip db (tag_text c)))),
      (''location'', cleaner (PyStr (strip db (tag_text l)))),
      (''salary'', cleaner (PyStr (case find_tag el ''span'' ''job-search-card__salary-info'' of
                      Some s \<Rightarrow> strip db (tag_text s) | None \<Rightarrow> str_lit ''Not specified''))),
      (''job_type'', infer_job_type db (strip db (tag_text t))),
      (''source'', str_lit ''LinkedIn'')]"
  using assms
  by (simp add: LinkedInScraper_extract_job_data_with_def LinkedInScraper_extract_try_with_def
      and_then_def Let_def)

lemma linkedin_card_record_blank:
  "LinkedInScraper_extract_job_data_with (\<lambda>text. []) ascii_db linkedin_card = Inr
     [(''title'', []), (''company'', []), (''location'', []), (''salary'', []),
      (''job_type'', str_lit ''Contract''), (''source'', str_lit ''LinkedIn'')]"
  by (simp add: LinkedInScraper_extract_job_data_with_def LinkedInScraper_extract_try_with_def
      and_then_def linkedin_card_def node_def leaf_def find_tag_def clean_eval ascii_db_def
      infer_job_type_def lower_ascii_lit lit_eval)

text \<open>
  Claim C3: \<open>_extract_job_data\<close> never raises. For every job card, each of the two
  extractors returns a mapping; when the title, the company or the location node is
  missing, the mapping is empty, and the loop over the cards then leaves the list of jobs
  as it was.
\<close>

theorem extract_job_data_never_raises:
  "(\<exists>job_data. IndeedScraper_extract_job_data db el = Inr job_data) \<and>
   (\<exists>job_data. LinkedInScraper_extract_job_data db el = Inr job_data) \<and>
   (find_tag el ''h2'' ''jobTitle'' = None \<or> find_tag el ''span'' ''companyName'' = None
      \<or> find_tag el ''div'' ''companyLocation'' = None
    \<longrightarrow> IndeedScraper_extract_job_data db el = Inr [] \<and>
        append_jobs (IndeedScraper_extract_job_data db) [el] jobs = (Inr (), jobs)) \<and>
   (find_tag el ''h3'' ''base-search-card__title'' = None
      \<or> find_tag el ''h4'' ''base-search-card__subtitle'' = None
      \<or> find_tag el ''span'' ''job-search-card__location'' = None
    \<longrightarrow> LinkedInScraper_extract_job_data db el = Inr [] \<and>
        append_jobs (LinkedInScraper_extract_job_data db) [el] jobs = (Inr (), jobs))"
  using IndeedScraper_extract_returns[of db el] LinkedInScraper_extract_returns[of db el] IndeedScraper_extract_missing[of el db] LinkedInScraper_extract_missing[of el db]
    append_jobs_skip[of "IndeedScraper_extract_job_data db" el jobs]
    append_jobs_skip[of "LinkedInScraper_extract_job_data db" el jobs]
  by blast

text \<open>
  Claim C3, an instance: the Indeed card without a title node gives the empty mapping, and
  the loop over that card appends nothing.
\<close>

theorem extract_job_data_never_raises_witness:
  "find_tag indeed_card_no_title ''h2'' ''jobTitle'' = None \<and>
   IndeedScraper_extract_job_data ascii_db indeed_card_no_title = Inr [] \<and>
   append_jobs (IndeedScraper_extract_job_data ascii_db) [indeed_card_no_title] [] = (Inr (), [])"
  using extract_job_data_never_raises[of ascii_db indeed_card_no_title "[]"]
  by (simp add: indeed_card_no_title_def find_tag_node)

text \<open>
  Claim C8: a job card that has its title, company and location nodes but no salary node
  gives a record whose salary is \<open>Not specified\<close>; the title, the company and the location
  are the cleaned texts of the card's nodes, the job type of a LinkedIn record is inferred
  from the card's title, and the source names the site.
\<close>

theorem extract_job_data_default_salary:
  "(find_tag el ''h2'' ''jobTitle'' = Some t \<and> find_tag el ''span'' ''companyName'' = Some c
      \<and> find_tag el ''div'' ''companyLocation'' = Some l
      \<and> find_tag el ''div'' ''salary-snippet'' = None
    \<longrightarrow> IndeedScraper_extract_job_data db el = Inr
         [(''title'', clean_text db (PyStr (strip db (tag_text t)))),
          (''company'', clean_text db (PyStr (strip db (tag_text c)))),
          (''location'', clean_text db (PyStr (strip db (tag_text l)))),
          (''salary'', str_lit ''Not specified''),
          (''source'', str_lit ''Indeed'')]) \<and>
   (find_tag el ''h3'' ''base-search-card__title'' = Some t
      \<and> find_tag el ''h4'' ''base-search-card__subtitle'' = Some c
      \<and> find_tag el ''span'' ''job-search-card__location'' = Some l
      \<and> find_tag el ''span'' ''job-search-card__salary-info'' = None
    \<longrightarrow> LinkedInScraper_extract_job_data db el = Inr
         [(''title'', clean_text db (PyStr (strip db (tag_text t)))),
          (''company'', clean_text db (PyStr (strip db (tag_text c)))),
          (''location'', clean_text db (PyStr (strip db (tag_text l)))),
          (''salary'', str_lit ''Not specified''),
          (''job_type'', infer_job_type db (strip db (tag_text t))),
          (''source'', str_lit ''LinkedIn'')])"
  using IndeedScraper_extract_present[of el t c l db] LinkedInScraper_extract_present[of el t c l db]
  by (simp add: clean_text_Not_specified)

text \<open>
  Claim C8, an instance: the Indeed card \<open>indeed_card\<close> has the three required nodes and
  no salary node; its record has the salary \<open>Not specified\<close>.
\<close>

theorem extract_job_data_default_salary_witness:
  "find_tag indeed_card ''h2'' ''jobTitle'' = Some (leaf '' Data Engineer '') \<and>
   find_tag indeed_card ''span'' ''companyName'' = Some (leaf ''Acme, Inc.'') \<and>
   find_tag indeed_card ''div'' ''companyLocation'' = Some (leaf ''Oslo'') \<and>
   find_tag indeed_card ''div'' ''salary-snippet'' = None \<and>
   IndeedScraper_extract_job_data ascii_db indeed_card = Inr
     [(''title'', str_lit ''Data Engineer''), (''company'', str_lit ''Acme, Inc.''),
      (''location'', str_lit ''Oslo''), (''salary'', str_lit ''Not specified''),
      (''source'', str_lit ''Indeed'')]"
  using extract_job_data_default_salary[of indeed_card "leaf '' Data Engineer ''" "leaf ''Acme, Inc.''"
      "leaf ''Oslo''" ascii_db]
  by (simp add: indeed_card_def find_tag_node leaf_def clean_eval ascii_db_def)

text \<open>
  Claim C10 says that the job type is the only textual field of a LinkedIn record that does
  not pass through \<open>clean_text\<close>. The source field does not either: on the card
  \<open>linkedin_card\<close>, putting a function that returns the empty string in the place of
  \<open>clean_text\<close> empties the title, the company, the location and the salary, and
  leaves both the job type \<open>Contract\<close> and the source \<open>LinkedIn\<close> as they were.
  So the source is not, for every such function, what the function returns on some text.
\<close>

theorem LinkedInScraper_source_not_cleaned_counterexample:
  "LinkedInScraper_extract_job_data ascii_db linkedin_card
     = LinkedInScraper_extract_job_data_with (clean_text ascii_db) ascii_db linkedin_card \<and>
   LinkedInScraper_extract_job_data_with (clean_text ascii_db) ascii_db linkedin_card = Inr
     [(''title'', str_lit ''Contract Engineer''), (''company'', str_lit ''Globex''),
      (''location'', str_lit ''Remote''), (''salary'', str_lit ''Not specified''),
      (''job_type'', str_lit ''Contract''), (''source'', str_lit ''LinkedIn'')] \<and>
   LinkedInScraper_extract_job_data_with (\<lambda>text. []) ascii_db linkedin_card = Inr
     [(''title'', []), (''company'', []), (''location'', []), (''salary'', []),
      (''job_type'', str_lit ''Contract''), (''source'', str_lit ''LinkedIn'')] \<and>
   \<not> (\<forall>cleaner. \<exists>job_data raw.
         LinkedInScraper_extract_job_data_with cleaner ascii_db linkedin_card = Inr job_data \<and>
         map_of job_data ''source'' = Some (cleaner (PyStr raw)))"
proof -
  have "\<not> (\<exists>job_data raw.
         LinkedInScraper_extract_job_data_with (\<lambda>text. []) ascii_db linkedin_card = Inr job_data \<and>
         map_of job_data ''source'' = Some ((\<lambda>text. []) (PyStr raw)))"
    by (simp add: linkedin_card_record_blank str_lit_simps)
  then have "\<not> (\<forall>cleaner. \<exists>job_data raw.
         LinkedInScraper_extract_job_data_with cleaner ascii_db linkedin_card = Inr job_data \<and>
         map_of job_data ''source'' = Some (cleaner (PyStr raw)))"
    by blast
  then show ?thesis
    using linkedin_card_record linkedin_card_record_blank
      LinkedInScraper_extract_with_clean_text[of ascii_db linkedin_card]
    by simp
qed

text \<open>
  Claim C10 as the code has it: the LinkedIn extractor is the parametrised method at
  \<open>clean_text\<close>, and in every non-empty record of the parametrised method the title,
  the company, the location and the salary are what the parameter returns on the stripped
  texts of the card (the default text for a missing salary node), while two fields do not go
  through it: the job type, which is the value inferred from the stripped title, stored as
  it is, and one of \<open>Full-time\<close>, \<open>Contract\<close>, \<open>Part-time\<close>, \<open>Internship\<close>
  and \<open>Temporary\<close>; and the source, which is the literal \<open>LinkedIn\<close>.
\<close>

theorem LinkedInScraper_job_type_and_source:
  "LinkedInScraper_extract_job_data db el
     = LinkedInScraper_extract_job_data_with (clean_text db) db el \<and>
   (LinkedInScraper_extract_job_data_with cleaner db el = Inr job_data \<and> job_data \<noteq> [] \<longrightarrow>
     (\<exists>t c l. find_tag el ''h3'' ''base-search-card__title'' = Some t \<and>
        find_tag el ''h4'' ''base-search-card__subtitle'' = Some c \<and>
        find_tag el ''span'' ''job-search-card__location'' = Some l \<and>
        job_data =
          [(''title'', cleaner (PyStr (strip db (tag_text t)))),
           (''company'', cleaner (PyStr (strip db (tag_text c)))),
           (''location'', cleaner (PyStr (strip db (tag_text l)))),
           (''salary'', cleaner (PyStr (case find_tag el ''span'' ''job-search-card__salary-info'' of
                          Some s \<Rightarrow> strip db (tag_text s) | None \<Rightarrow> str_lit ''Not specified''))),
           (''job_type'', infer_job_type db (strip db (tag_text t))),
           (''source'', str_lit ''LinkedIn'')] \<and>
        infer_job_type db (strip db (tag_text t)) \<in> {str_lit ''Full-time'', str_lit ''Contract'',
           str_lit ''Part-time'', str_lit ''Internship'', str_lit ''Temporary''}))"
proof (intro conjI impI)
  show "LinkedInScraper_extract_job_data db el
     = LinkedInScraper_extract_job_data_with (clean_text db) db el"
    by (rule LinkedInScraper_extract_with_clean_text)
next
  assume a: "LinkedInScraper_extract_job_data_with cleaner db el = Inr job_data \<and> job_data \<noteq> []"
  have m: "\<not> (find_tag el ''h3'' ''base-search-card__title'' = None
     \<or> find_tag el ''h4'' ''base-search-card__subtitle'' = None
     \<or> find_tag el ''span'' ''job-search-card__location'' = None)"
  proof
    assume "find_tag el ''h3'' ''base-search-card__title'' = None
     \<or> find_tag el ''h4'' ''base-search-card__subtitle'' = None
     \<or> find_tag el ''span'' ''job-search-card__location'' = None"
    then have "LinkedInScraper_extract_job_data_with cleaner db el = Inr []"
      by (rule LinkedInScraper_extract_with_missing)
    with a show False by auto
  qed
  then obtain t c l where
    f: "find_tag el ''h3'' ''base-search-card__title'' = Some t"
       "find_tag el ''h4'' ''base-search-card__subtitle'' = Some c"
       "find_tag el ''span'' ''job-search-card__location'' = Some l"
    by auto
  from LinkedInScraper_extract_with_present[OF f, of cleaner db] a f
    infer_job_type_range[of db "strip db (tag_text t)"]
  show "\<exists>t c l. find_tag el ''h3'' ''base-search-card__title'' = Some t \<and>
        find_tag el ''h4'' ''base-search-card__subtitle'' = Some c \<and>
        find_tag el ''span'' ''job-search-card__location'' = Some l \<and>
        job_data =
          [(''title'', cleaner (PyStr (strip db (tag_text t)))),
           (''company'', cleaner (PyStr (strip db (tag_text c)))),
           (''location'', cleaner (PyStr (strip db (tag_text l)))),
           (''salary'', cleaner (PyStr (case find_tag el ''span'' ''job-search-card__salary-info'' of
                          Some s \<Rightarrow> strip db (tag_text s) | None \<Rightarrow> str_lit ''Not specified''))),
           (''job_type'', infer_job_type db (strip db (tag_text t))),
           (''source'', str_lit ''LinkedIn'')] \<and>
        infer_job_type db (strip db (tag_text t)) \<in> {str_lit ''Full-time'', str_lit ''Contract'',
           str_lit ''Part-time'', str_lit ''Internship'', str_lit ''Temporary''}"
    by (intro exI[of _ t] exI[of _ c] exI[of _ l]) simp
qed

text \<open>
  Claim C10, an instance: the record of \<open>linkedin_card\<close>, whose title is
  \<open>Contract Engineer\<close>, with \<open>clean_text\<close> for the parameter.
\<close>

theorem LinkedInScraper_job_type_and_source_witness:
  "LinkedInScraper_extract_job_data_with (clean_text ascii_db) ascii_db linkedin_card = Inr
     [(''title'', str_lit ''Contract Engineer''), (''company'', str_lit ''Globex''),
      (''location'', str_lit ''Remote''), (''salary'', str_lit ''Not specified''),
      (''job_type'', str_lit ''Contract''), (''source'', str_lit ''LinkedIn'')] \<and>
   [(''title'', str_lit ''Contract Engineer''), (''company'', str_lit ''Globex''),
      (''location'', str_lit ''Remote''), (''salary'', str_lit ''Not specified''),
      (''job_type'', str_lit ''Contract''), (''source'', str_lit ''LinkedIn'')] \<noteq> [] \<and>
   (\<exists>t. find_tag linkedin_card ''h3'' ''base-search-card__title'' = Some t \<and>
        infer_job_type ascii_db (strip ascii_db (tag_text t)) = str_lit ''Contract'')"
proof -
  note t = LinkedInScraper_job_type_and_source[of ascii_db linkedin_card "clean_text ascii_db"
      "[(''title'', str_lit ''Contract Engineer''), (''company'', str_lit ''Globex''),
      (''location'', str_lit ''Remote''), (''salary'', str_lit ''Not specified''),
      (''job_type'', str_lit ''Contract''), (''source'', str_lit ''LinkedIn'')]"]
  have e: "LinkedInScraper_extract_job_data_with (clean_text ascii_db) ascii_db linkedin_card = Inr
     [(''title'', str_lit ''Contract Engineer''), (''company'', str_lit ''Globex''),
      (''location'', str_lit ''Remote''), (''salary'', str_lit ''Not specified''),
      (''job_type'', str_lit ''Contract''), (''source'', str_lit ''LinkedIn'')]"
    using t[THEN conjunct1] linkedin_card_record by simp
  have ne: "[(''title'', str_lit ''Contract Engineer''), (''company'', str_lit ''Globex''),
      (''location'', str_lit ''Remote''), (''salary'', str_lit ''Not specified''),
      (''job_type'', str_lit ''Contract''), (''source'', str_lit ''LinkedIn'')] \<noteq> []"
    by simp
  from t[THEN conjunct2, THEN mp, OF conjI[OF e ne]]
  obtain tn where "find_tag linkedin_card ''h3'' ''base-search-card__title'' = Some tn"
    "(''job_type'', str_lit ''Contract'') = (''job_type'', infer_job_type ascii_db (strip ascii_db (tag_text tn)))"
    by auto
  then have "\<exists>t. find_tag linkedin_card ''h3'' ''base-search-card__title'' = Some t \<and>
        infer_job_type ascii_db (strip ascii_db (tag_text t)) = str_lit ''Contract''"
    by auto
  with e ne show ?thesis by (intro conjI)
qed

section \<open>The fetch client\<close>

lemma requested_append: "requested (a @ b) = requested a @ requested b"
  by (simp add: requested_def)

lemma requested_simps:
  "requested [] = []"
  "requested (Http_get url # tr) = url # requested tr"
  "requested (Sleep d # tr) = requested tr"
  "requested (Sleep_uniform lo hi # tr) = requested tr"
  by (simp_all add: requested_def)

text \<open>
  One attempt of \<open>_get_soup\<close>, with the \<open>try\<close> block and the handler worked out by
  the status of the response.
\<close>

lemma get_soup_attempts_step:
  "get_soup_attempts srv url (attempt # rest) retry_delay w =
     (let w2 = w\<lparr>requests := requests w + 1,
                 trace := trace w @ [Sleep_uniform 2 5, Http_get url]\<rparr>
      in case srv (requests w) url of
           Response status doc \<Rightarrow>
             if 400 \<le> status \<and> status < 600 then
               (if attempt < 2
                then get_soup_attempts srv url rest (retry_delay * 2)
                       (w2\<lparr>trace := trace w2 @ [Sleep retry_delay]\<rparr>)
                else (Inl (HTTPError status), w2))
             else if status = 200 then (Inr (Some doc), w2)
             else get_soup_attempts srv url rest retry_delay w2
         | Raises e \<Rightarrow>
             if is_RequestException e then
               (if attempt < 2
                then get_soup_attempts srv url rest (retry_delay * 2)
                       (w2\<lparr>trace := trace w2 @ [Sleep retry_delay]\<rparr>)
                else (Inl e, w2))
             else (Inl e, w2))"
  by (auto simp add: get_soup_attempts.simps(2) Let_def session_get_def emit_def raise_for_status_def
      and_then_def max_retries_def split: http_outcome.split)

lemma get_soup_attempts_requested:
  "\<exists>k. k \<le> length attempts \<and> (attempts \<noteq> [] \<longrightarrow> 1 \<le> k) \<and>
     requested (trace (snd (get_soup_attempts srv url attempts retry_delay w)))
       = requested (trace w) @ replicate k url"
proof (induction attempts arbitrary: retry_delay w)
  case Nil
  show ?case by simp
next
  case (Cons attempt rest)
  define w2 where "w2 = w\<lparr>requests := requests w + 1,
                 trace := trace w @ [Sleep_uniform 2 5, Http_get url]\<rparr>"
  define w3 where "w3 = w2\<lparr>trace := trace w2 @ [Sleep retry_delay]\<rparr>"
  have r2: "requested (trace w2) = requested (trace w) @ [url]"
    by (simp add: w2_def requested_append requested_simps)
  have r3: "requested (trace w3) = requested (trace w) @ [url]"
    by (simp add: w3_def r2 requested_append requested_simps)
  have stop: "requested (trace w2) = requested (trace w) @ replicate 1 url"
    using r2 by simp
  have go: "\<exists>k. k \<le> length (attempt # rest) \<and> 1 \<le> k \<and>
       requested (trace (snd (get_soup_attempts srv url rest d w'))) = requested (trace w) @ replicate k url"
    if "requested (trace w') = requested (trace w) @ [url]" for d w'
  proof -
    from Cons[of d w'] obtain k where k: "k \<le> length rest"
      "requested (trace (snd (get_soup_attempts srv url rest d w'))) = requested (trace w') @ replicate k url"
      by blast
    have "requested (trace w') @ replicate k url = requested (trace w) @ replicate (Suc k) url"
      using that by simp
    with k show ?thesis by (intro exI[of _ "Suc k"]) simp
  qed
  have fin: "\<exists>k. k \<le> length (attempt # rest) \<and> 1 \<le> k \<and>
       requested (trace w2) = requested (trace w) @ replicate k url"
    using stop by (intro exI[of _ 1]) simp
  show ?case
    unfolding get_soup_attempts_step Let_def w2_def[symmetric] w3_def[symmetric]
    using go[OF r2] go[OF r3] fin
    by (simp split: http_outcome.split)
qed

lemma get_soup_requested:
  "\<exists>k. 1 \<le> k \<and> k \<le> 3 \<and>
     requested (trace (snd (get_soup srv url w))) = requested (trace w) @ replicate k url"
  using get_soup_attempts_requested[of "[0, 1, 2]" srv url 5 w]
  by (auto simp: get_soup_def py_range_max_retries numeral_3_eq_3)

lemma get_soup_attempts_Some:
  "get_soup_attempts srv url attempts retry_delay w = (Inr (Some doc), w')
   \<Longrightarrow> \<exists>n. srv n url = Response 200 doc"
proof (induction attempts arbitrary: retry_delay w)
  case Nil
  then show ?case by simp
next
  case (Cons attempt rest)
  from Cons.prems show ?case
    unfolding get_soup_attempts_step Let_def
    by (auto split: http_outcome.splits if_splits dest: Cons.IH)
qed

lemma get_soup_Some:
  "get_soup srv url w = (Inr (Some doc), w') \<Longrightarrow> \<exists>n. srv n url = Response 200 doc"
  unfolding get_soup_def by (rule get_soup_attempts_Some)

text \<open>
  What the fetch client does on the statuses that the handler covers: a response with
  status 200 is returned as the parsed document at once; when three attempts in a row fail
  with a request exception or a status from 400 to 599, the client sleeps 5 seconds after
  the first failure and 10 after the second, and the third failure is raised to the caller.
\<close>

lemma get_soup_ok:
  "srv (requests w) url = Response 200 doc \<Longrightarrow>
   get_soup srv url w = (Inr (Some doc), w\<lparr>requests := requests w + 1,
                 trace := trace w @ [Sleep_uniform 2 5, Http_get url]\<rparr>)"
  by (simp add: get_soup_def py_range_max_retries get_soup_attempts_step)

lemma get_soup_attempts_failure:
  assumes "attempt_failure (srv (requests w) url) = Some e"
  shows "get_soup_attempts srv url (attempt # rest) retry_delay w =
     (if attempt < 2
      then get_soup_attempts srv url rest (retry_delay * 2)
             (w\<lparr>requests := requests w + 1,
                trace := trace w @ [Sleep_uniform 2 5, Http_get url, Sleep retry_delay]\<rparr>)
      else (Inl e, w\<lparr>requests := requests w + 1,
                trace := trace w @ [Sleep_uniform 2 5, Http_get url]\<rparr>))"
proof (cases "srv (requests w) url")
  case (Raises x)
  with assms show ?thesis
    by (simp add: get_soup_attempts_step Let_def split: if_splits)
next
  case (Response status doc)
  with assms show ?thesis
    by (simp add: get_soup_attempts_step Let_def split: if_splits)
qed

lemma get_soup_retries_exhausted:
  assumes "attempt_failure (srv (requests w) url) = Some e1"
    and "attempt_failure (srv (requests w + 1) url) = Some e2"
    and "attempt_failure (srv (requests w + 2) url) = Some e3"
  shows "get_soup srv url w = (Inl e3, w\<lparr>requests := requests w + 3,
      trace := trace w @ [Sleep_uniform 2 5, Http_get url, Sleep 5, Sleep_uniform 2 5, Http_get url, Sleep 10,
        Sleep_uniform 2 5, Http_get url]\<rparr>)"
  using assms
  by (simp add: get_soup_def py_range_max_retries get_soup_attempts_failure)

lemma get_soup_all_fail:
  assumes "\<forall>n u. attempt_failure (srv n u) \<noteq> None"
  shows "\<exists>e w1. get_soup srv url w = (Inl e, w1) \<and> requests w1 = requests w + 3"
proof -
  from assms obtain e1 e2 e3 where
    "attempt_failure (srv (requests w) url) = Some e1"
    "attempt_failure (srv (requests w + 1) url) = Some e2"
    "attempt_failure (srv (requests w + 2) url) = Some e3"
    by (meson option.exhaust)
  then have "get_soup srv url w = (Inl e3, w\<lparr>requests := requests w + 3,
      trace := trace w @ [Sleep_uniform 2 5, Http_get url, Sleep 5, Sleep_uniform 2 5, Http_get url, Sleep 10,
        Sleep_uniform 2 5, Http_get url]\<rparr>)"
    by (rule get_soup_retries_exhausted[of srv w url e1 e2 e3])
  then show ?thesis by simp
qed

text \<open>
  Claim C2 says that \<open>_get_soup\<close> treats every status outside 2xx as a failed attempt,
  with a sleep of 5 and then 10 seconds between the attempts, and that the failure of the
  third attempt reaches the caller. A status that \<open>raise_for_status\<close> accepts and that is
  not 200 takes neither branch of the loop body: against a server that answers 304 to every
  request, the client sends three requests with no backoff sleep between them, falls out of
  the loop and returns \<open>None\<close>; nothing is raised.
\<close>

theorem get_soup_not_modified_returns_None:
  "get_soup (server_status 304 doc) url first_world =
     (Inr None, \<lparr>requests = 3, trace = [Sleep_uniform 2 5, Http_get url, Sleep_uniform 2 5, Http_get url,
        Sleep_uniform 2 5, Http_get url]\<rparr>)"
  by (simp add: get_soup_def py_range_max_retries get_soup_attempts_step server_status_def first_world_def)

section \<open>The pagination driver\<close>

lemma append_jobs_total:
  assumes "\<forall>el. \<exists>r. extract el = Inr r"
  shows "append_jobs extract els jobs =
     (Inr (), jobs @ filter (\<lambda>r. r \<noteq> [])
        (map (\<lambda>el. case extract el of Inr r \<Rightarrow> r | Inl e \<Rightarrow> []) els))"
proof (induction els arbitrary: jobs)
  case Nil
  show ?case by simp
next
  case (Cons el els)
  from assms obtain r where "extract el = Inr r" by blast
  then show ?case by (simp add: Cons)
qed

lemma scrape_page_total_extract:
  assumes "\<forall>el. \<exists>r. extract_job_data sc db el = Inr r"
  shows "scrape_page sc db srv url page jobs w =
     (case get_soup srv (page_url sc url page) w of
        (Inr (Some soup), w1) \<Rightarrow>
          (Inr (), jobs @ page_records sc db (Some soup), emit (Sleep_uniform 1 3) w1)
      | (Inr None, w1) \<Rightarrow> (Inl AttributeError, jobs, w1)
      | (Inl e, w1) \<Rightarrow> (Inl e, jobs, w1))"
  by (simp add: scrape_page_def append_jobs_total[OF assms] page_records_def
      split: prod.split sum.split option.split)

lemma scrape_pages_fetch:
  assumes "\<forall>el. \<exists>r. extract_job_data sc db el = Inr r"
  shows "scrape_pages sc db srv url pages jobs w =
     (Inr (jobs @ concat (map (page_records sc db) (fst (fetch_pages sc srv url pages w)))),
      snd (fetch_pages sc srv url pages w))"
proof (induction pages arbitrary: jobs w)
  case Nil
  show ?case by simp
next
  case (Cons page rest)
  show ?case
    by (simp add: scrape_page_total_extract[OF assms] Cons page_records_def
        split: prod.split sum.split option.split)
qed

lemma scrape_job_listings_fetch:
  assumes "\<forall>el. \<exists>r. extract_job_data sc db el = Inr r"
  shows "scrape_job_listings sc db srv url max_pages w =
     (Inr (concat (map (page_records sc db) (fst (fetch_pages sc srv url (py_range max_pages) w)))),
      snd (fetch_pages sc srv url (py_range max_pages) w))"
  by (simp add: scrape_job_listings_def scrape_pages_fetch[OF assms])

lemma length_fetch_pages: "length (fst (fetch_pages sc srv url pages w)) = length pages"
  by (induction pages arbitrary: w) (simp_all add: case_prod_beta split: sum.split option.split)

lemma scrape_pages_returns:
  "\<exists>jobs' w'. scrape_pages sc db srv url pages jobs w = (Inr jobs', w')"
proof (induction pages arbitrary: jobs w)
  case Nil
  show ?case by simp
next
  case (Cons page rest)
  obtain r jobs1 w1 where "scrape_page sc db srv url page jobs w = (r, jobs1, w1)"
    by (metis prod_cases3)
  then show ?case using Cons[of jobs1 w1] by (cases r) simp_all
qed

lemma scrape_page_no_ok:
  assumes "\<forall>n u doc. srv n u \<noteq> Response 200 doc"
  shows "fst (snd (scrape_page sc db srv url page jobs w)) = jobs"
proof -
  obtain r w1 where g: "get_soup srv (page_url sc url page) w = (r, w1)"
    by (cases "get_soup srv (page_url sc url page) w")
  have "r \<noteq> Inr (Some doc)" for doc
    using get_soup_Some[of srv "page_url sc url page" w doc w1] g assms by auto
  then show ?thesis using g
    by (auto simp: scrape_page_def split: sum.split option.split)
qed

lemma scrape_pages_no_ok:
  assumes "\<forall>n u doc. srv n u \<noteq> Response 200 doc"
  shows "fst (scrape_pages sc db srv url pages jobs w) = Inr jobs"
proof (induction pages arbitrary: w)
  case Nil
  show ?case by simp
next
  case (Cons page rest)
  obtain r jobs1 w1 where s: "scrape_page sc db srv url page jobs w = (r, jobs1, w1)"
    by (metis prod_cases3)
  then have "jobs1 = jobs" using scrape_page_no_ok[OF assms, of sc db url page jobs w] by simp
  then show ?case using s Cons[of w1] by (cases r) simp_all
qed

lemma scrape_pages_all_fail:
  assumes "\<forall>n u. attempt_failure (srv n u) \<noteq> None"
  shows "requests (snd (scrape_pages sc db srv url pages jobs w)) = requests w + 3 * length pages"
proof (induction pages arbitrary: jobs w)
  case Nil
  show ?case by simp
next
  case (Cons page rest)
  from get_soup_all_fail[OF assms, of "page_url sc url page" w] obtain e w1 where
    g: "get_soup srv (page_url sc url page) w = (Inl e, w1)" "requests w1 = requests w + 3"
    by blast
  then show ?case by (simp add: scrape_page_def Cons)
qed

lemma fetch_pages_requested:
  "\<exists>ks. length ks = length pages \<and> (\<forall>k\<in>set ks. 1 \<le> k \<and> k \<le> 3) \<and>
     requested (trace (snd (fetch_pages sc srv url pages w)))
       = requested (trace w) @ concat (map2 (\<lambda>page k. replicate k (page_url sc url page)) pages ks)"
proof (induction pages arbitrary: w)
  case Nil
  show ?case by simp
next
  case (Cons page rest)
  obtain r w1 where g: "get_soup srv (page_url sc url page) w = (r, w1)"
    by (cases "get_soup srv (page_url sc url page) w")
  from get_soup_requested[of srv "page_url sc url page" w] g obtain k where
    k: "1 \<le> k" "k \<le> 3"
       "requested (trace w1) = requested (trace w) @ replicate k (page_url sc url page)"
    by auto
  define w2 where "w2 = (case r of Inr (Some soup) \<Rightarrow> emit (Sleep_uniform 1 3) w1 | _ \<Rightarrow> w1)"
  have r2: "requested (trace w2) = requested (trace w1)"
    by (simp add: w2_def emit_def requested_append requested_simps split: sum.split option.split)
  have step: "snd (fetch_pages sc srv url (page # rest) w) = snd (fetch_pages sc srv url rest w2)"
    using g by (simp add: w2_def split: sum.split option.split prod.split)
  from Cons[of w2] obtain ks where
    ks: "length ks = length rest" "\<forall>k\<in>set ks. 1 \<le> k \<and> k \<le> 3"
        "requested (trace (snd (fetch_pages sc srv url rest w2)))
           = requested (trace w2) @ concat (map2 (\<lambda>page k. replicate k (page_url sc url page)) rest ks)"
    by blast
  show ?case
    using k ks r2 step by (intro exI[of _ "k # ks"]) simp
qed

lemma page_records_member:
  "r \<in> set (page_records sc db soup) \<Longrightarrow> r \<noteq> [] \<and> (\<exists>el. extract_job_data sc db el = Inr r)"
  by (auto simp: page_records_def split: option.splits sum.splits)

lemma IndeedScraper_dispatch_returns: "\<forall>el. \<exists>r. extract_job_data IndeedScraper db el = Inr r"
  by (simp add: IndeedScraper_def IndeedScraper_extract_returns)

lemma LinkedInScraper_dispatch_returns: "\<forall>el. \<exists>r. extract_job_data LinkedInScraper db el = Inr r"
  by (simp add: LinkedInScraper_def LinkedInScraper_extract_returns)

lemma indeed_page_listing: "fst (scrape_job_listings IndeedScraper ascii_db (server_status 200 indeed_page) example_url 1 first_world)
   = Inr [[(''title'', str_lit ''Data Engineer''), (''company'', str_lit ''Acme, Inc.''),
    (''location'', str_lit ''Oslo''), (''salary'', str_lit ''Not specified''),
    (''source'', str_lit ''Indeed'')],
    [(''title'', str_lit ''Analyst''), (''company'', str_lit ''Initech''),
    (''location'', str_lit ''Bergen''), (''salary'', str_lit ''$90,000''),
    (''source'', str_lit ''Indeed'')]]"
  by (simp add: scrape_job_listings_def py_range_numeral scrape_page_def get_soup_ok server_status_def
     first_world_def IndeedScraper_def indeed_page_def[unfolded node_def] indeed_card_record indeed_card_no_title_record indeed_card_paid_record)

lemma page_url_eval:
  "page_url IndeedScraper example_url 0 = str_lit ''https://example.org/jobs?q=data&start=0''"
  "page_url IndeedScraper example_url 1 = str_lit ''https://example.org/jobs?q=data&start=10''"
  by (simp_all add: page_url_def IndeedScraper_def example_url_def str_lit_def str_int_def digits.simps)

lemma indeed_flaky_listing: "scrape_job_listings IndeedScraper ascii_db (server_once indeed_page) example_url 2 first_world
  = (Inr [[(''title'', str_lit ''Data Engineer''), (''company'', str_lit ''Acme, Inc.''),
             (''location'', str_lit ''Oslo''), (''salary'', str_lit ''Not specified''),
             (''source'', str_lit ''Indeed'')],
            [(''title'', str_lit ''Analyst''), (''company'', str_lit ''Initech''),
             (''location'', str_lit ''Bergen''), (''salary'', str_lit ''$90,000''),
             (''source'', str_lit ''Indeed'')]],
     \<lparr>requests = 4, trace =
        [Sleep_uniform 2 5, Http_get (str_lit ''https://example.org/jobs?q=data&start=0''),
         Sleep_uniform 1 3,
         Sleep_uniform 2 5, Http_get (str_lit ''https://example.org/jobs?q=data&start=10''), Sleep 5,
         Sleep_uniform 2 5, Http_get (str_lit ''https://example.org/jobs?q=data&start=10''), Sleep 10,
         Sleep_uniform 2 5, Http_get (str_lit ''https://example.org/jobs?q=data&start=10'')]\<rparr>)"
  by (simp add: scrape_job_listings_def py_range_numeral scrape_page_def get_soup_def py_range_max_retries
     get_soup_attempts_step server_once_def emit_def page_url_eval
     first_world_def IndeedScraper_def[THEN arg_cong[of _ _ extract_job_data]]
     IndeedScraper_def[THEN arg_cong[of _ _ card_class]] indeed_page_def[unfolded node_def] indeed_card_record indeed_card_no_title_record indeed_card_paid_record)

text \<open>
  Claim C1: \<open>scrape_job_listings\<close> never raises. For every scraper, base URL, number of
  pages, server and starting state, the call returns a list. When no request is answered
  with status 200, the list is empty; when every request fails with a request exception or
  a status from 400 to 599, the list is empty after three requests for each page.
\<close>

theorem scrape_job_listings_never_raises:
  "(\<exists>jobs w'. scrape_job_listings sc db srv url max_pages w = (Inr jobs, w')) \<and>
   ((\<forall>n u doc. srv n u \<noteq> Response 200 doc)
      \<longrightarrow> fst (scrape_job_listings sc db srv url max_pages w) = Inr []) \<and>
   ((\<forall>n u. attempt_failure (srv n u) \<noteq> None)
      \<longrightarrow> fst (scrape_job_listings sc db srv url max_pages w) = Inr [] \<and>
          requests (snd (scrape_job_listings sc db srv url max_pages w)) = requests w + 3 * nat max_pages)"
proof -
  have "srv n u \<noteq> Response 200 doc" if "\<forall>n u. attempt_failure (srv n u) \<noteq> None" for n u doc
  proof
    assume "srv n u = Response 200 doc"
    then have "attempt_failure (srv n u) = None" by simp
    with that show False by blast
  qed
  then show ?thesis
    unfolding scrape_job_listings_def
    using scrape_pages_returns[of sc db srv url "py_range max_pages" "[]" w]
      scrape_pages_no_ok[of srv sc db url "py_range max_pages" "[]" w]
      scrape_pages_all_fail[of srv sc db url "py_range max_pages" "[]" w]
    by (auto simp: py_range_def)
qed

text \<open>
  Claim C1, an instance: against a server that refuses every connection, three pages of
  either site give the empty list after nine requests.
\<close>

theorem scrape_job_listings_never_raises_witness:
  "(\<forall>n u. attempt_failure (server_down n u) \<noteq> None) \<and>
   (\<forall>n u doc. server_down n u \<noteq> Response 200 doc) \<and>
   fst (scrape_job_listings IndeedScraper ascii_db server_down example_url 3 first_world) = Inr [] \<and>
   requests (snd (scrape_job_listings IndeedScraper ascii_db server_down example_url 3 first_world)) = 9 \<and>
   fst (scrape_job_listings LinkedInScraper ascii_db server_down example_url 3 first_world) = Inr [] \<and>
   requests (snd (scrape_job_listings LinkedInScraper ascii_db server_down example_url 3 first_world)) = 9"
  using scrape_job_listings_never_raises[of IndeedScraper ascii_db server_down example_url 3 first_world]
    scrape_job_listings_never_raises[of LinkedInScraper ascii_db server_down example_url 3 first_world]
  by (simp add: server_down_def first_world_def)

lemma page_records_member_card:
  "r \<in> set (page_records sc db soup) \<Longrightarrow>
   \<exists>doc el. soup = Some doc \<and> el \<in> set (find_all doc ''div'' (card_class sc)) \<and>
     extract_job_data sc db el = Inr r \<and> r \<noteq> []"
  by (cases soup) (auto simp: page_records_def split: sum.splits)

lemma scrape_job_listings_member:
  assumes "\<forall>el. \<exists>r. extract_job_data sc db el = Inr r"
    and "fst (scrape_job_listings sc db srv url max_pages w) = Inr jobs"
    and "job_data \<in> set jobs"
  shows "\<exists>doc el. Some doc \<in> set (fst (fetch_pages sc srv url (py_range max_pages) w)) \<and>
     el \<in> set (find_all doc ''div'' (card_class sc)) \<and>
     extract_job_data sc db el = Inr job_data \<and> job_data \<noteq> []"
proof -
  from assms(2,3) obtain soup where
    s: "soup \<in> set (fst (fetch_pages sc srv url (py_range max_pages) w))"
       "job_data \<in> set (page_records sc db soup)"
    by (auto simp: scrape_job_listings_fetch[OF assms(1)])
  from page_records_member_card[OF s(2)] s(1) show ?thesis by blast
qed

text \<open>
  Claim C4: every record in the list that \<open>scrape_job_listings\<close> returns is fully
  populated or defaulted. No record is the empty mapping; the fields of each are exactly
  those of its site; and each is the record of a job card of a page that was fetched, a
  card that has its title, company and location nodes: the title, the company and the
  location are the cleaned texts of these nodes, the salary is the cleaned text of the
  salary node or \<open>Not specified\<close> when the card has none, the job type of a LinkedIn
  record is inferred from the title, and the source is the literal of the site.
\<close>

theorem scrape_job_listings_records_complete:
  "(fst (scrape_job_listings IndeedScraper db srv url max_pages w) = Inr jobs
     \<longrightarrow> (\<forall>job_data\<in>set jobs. job_data \<noteq> [] \<and> map fst job_data = IndeedScraper_fields \<and>
           (\<exists>doc el t c l.
              Some doc \<in> set (fst (fetch_pages IndeedScraper srv url (py_range max_pages) w)) \<and>
              el \<in> set (find_all doc ''div'' ''job_seen_beacon'') \<and>
              find_tag el ''h2'' ''jobTitle'' = Some t \<and>
              find_tag el ''span'' ''companyName'' = Some c \<and>
              find_tag el ''div'' ''companyLocation'' = Some l \<and>
              job_data =
                [(''title'', clean_text db (PyStr (strip db (tag_text t)))),
                 (''company'', clean_text db (PyStr (strip db (tag_text c)))),
                 (''location'', clean_text db (PyStr (strip db (tag_text l)))),
                 (''salary'', (case find_tag el ''div'' ''salary-snippet'' of
                                 Some s \<Rightarrow> clean_text db (PyStr (strip db (tag_text s)))
                               | None \<Rightarrow> str_lit ''Not specified'')),
                 (''source'', str_lit ''Indeed'')]))) \<and>
   (fst (scrape_job_listings LinkedInScraper db srv url max_pages w) = Inr jobs
     \<longrightarrow> (\<forall>job_data\<in>set jobs. job_data \<noteq> [] \<and> map fst job_data = LinkedInScraper_fields \<and>
           (\<exists>doc el t c l.
              Some doc \<in> set (fst (fetch_pages LinkedInScraper srv url (py_range max_pages) w)) \<and>
              el \<in> set (find_all doc ''div'' ''base-card'') \<and>
              find_tag el ''h3'' ''base-search-card__title'' = Some t \<and>
              find_tag el ''h4'' ''base-search-card__subtitle'' = Some c \<and>
              find_tag el ''span'' ''job-search-card__location'' = Some l \<and>
              job_data =
                [(''title'', clean_text db (PyStr (strip db (tag_text t)))),
                 (''company'', clean_text db (PyStr (strip db (tag_text c)))),
                 (''location'', clean_text db (PyStr (strip db (tag_text l)))),
                 (''salary'', (case find_tag el ''span'' ''job-search-card__salary-info'' of
                                 Some s \<Rightarrow> clean_text db (PyStr (strip db (tag_text s)))
                               | None \<Rightarrow> str_lit ''Not specified'')),
                 (''job_type'', infer_job_type db (strip db (tag_text t))),
                 (''source'', str_lit ''LinkedIn'')])))"
proof (intro conjI impI ballI)
  fix job_data
  assume a: "fst (scrape_job_listings IndeedScraper db srv url max_pages w) = Inr jobs"
    "job_data \<in> set jobs"
  from scrape_job_listings_member[OF IndeedScraper_dispatch_returns a] obtain doc el where
    d: "Some doc \<in> set (fst (fetch_pages IndeedScraper srv url (py_range max_pages) w))"
       "el \<in> set (find_all doc ''div'' ''job_seen_beacon'')"
       "IndeedScraper_extract_job_data db el = Inr job_data" "job_data \<noteq> []"
    by (auto simp: IndeedScraper_def)
  show "job_data \<noteq> []" by (rule d(4))
  show "map fst job_data = IndeedScraper_fields"
    using d(3,4) by (rule IndeedScraper_extract_fields)
  from IndeedScraper_extract_record[OF d(3,4)] d(1,2)
  show "\<exists>doc el t c l.
              Some doc \<in> set (fst (fetch_pages IndeedScraper srv url (py_range max_pages) w)) \<and>
              el \<in> set (find_all doc ''div'' ''job_seen_beacon'') \<and>
              find_tag el ''h2'' ''jobTitle'' = Some t \<and>
              find_tag el ''span'' ''companyName'' = Some c \<and>
              find_tag el ''div'' ''companyLocation'' = Some l \<and>
              job_data =
                [(''title'', clean_text db (PyStr (strip db (tag_text t)))),
                 (''company'', clean_text db (PyStr (strip db (tag_text c)))),
                 (''location'', clean_text db (PyStr (strip db (tag_text l)))),
                 (''salary'', (case find_tag el ''div'' ''salary-snippet'' of
                                 Some s \<Rightarrow> clean_text db (PyStr (strip db (tag_text s)))
                               | None \<Rightarrow> str_lit ''Not specified'')),
                 (''source'', str_lit ''Indeed'')]"
    by blast
next
  fix job_data
  assume a: "fst (scrape_job_listings LinkedInScraper db srv url max_pages w) = Inr jobs"
    "job_data \<in> set jobs"
  from scrape_job_listings_member[OF LinkedInScraper_dispatch_returns a] obtain doc el where
    d: "Some doc \<in> set (fst (fetch_pages LinkedInScraper srv url (py_range max_pages) w))"
       "el \<in> set (find_all doc ''div'' ''base-card'')"
       "LinkedInScraper_extract_job_data db el = Inr job_data" "job_data \<noteq> []"
    by (auto simp: LinkedInScraper_def)
  show "job_data \<noteq> []" by (rule d(4))
  show "map fst job_data = LinkedInScraper_fields"
    using d(3,4) by (rule LinkedInScraper_extract_fields)
  from LinkedInScraper_extract_record[OF d(3,4)] d(1,2)
  show "\<exists>doc el t c l.
              Some doc \<in> set (fst (fetch_pages LinkedInScraper srv url (py_range max_pages) w)) \<and>
              el \<in> set (find_all doc ''div'' ''base-card'') \<and>
              find_tag el ''h3'' ''base-search-card__title'' = Some t \<and>
              find_tag el ''h4'' ''base-search-card__subtitle'' = Some c \<and>
              find_tag el ''span'' ''job-search-card__location'' = Some l \<and>
              job_data =
                [(''title'', clean_text db (PyStr (strip db (tag_text t)))),
                 (''company'', clean_text db (PyStr (strip db (tag_text c)))),
                 (''location'', clean_text db (PyStr (strip db (tag_text l)))),
                 (''salary'', (case find_tag el ''span'' ''job-search-card__salary-info'' of
                                 Some s \<Rightarrow> clean_text db (PyStr (strip db (tag_text s)))
                               | None \<Rightarrow> str_lit ''Not specified'')),
                 (''job_type'', infer_job_type db (strip db (tag_text t))),
                 (''source'', str_lit ''LinkedIn'')]"
    by blast
qed

text \<open>
  Claim C4, an instance: a page with three Indeed cards, the second without a title. The
  list has the records of the first and the third card, both complete.
\<close>

theorem scrape_job_listings_records_complete_witness:
  "fst (scrape_job_listings IndeedScraper ascii_db (server_status 200 indeed_page) example_url 1 first_world)
     = Inr [[(''title'', str_lit ''Data Engineer''), (''company'', str_lit ''Acme, Inc.''),
             (''location'', str_lit ''Oslo''), (''salary'', str_lit ''Not specified''),
             (''source'', str_lit ''Indeed'')],
            [(''title'', str_lit ''Analyst''), (''company'', str_lit ''Initech''),
             (''location'', str_lit ''Bergen''), (''salary'', str_lit ''$90,000''),
             (''source'', str_lit ''Indeed'')]] \<and>
   map fst [(''title'', str_lit ''Data Engineer''), (''company'', str_lit ''Acme, Inc.''),
            (''location'', str_lit ''Oslo''), (''salary'', str_lit ''Not specified''),
            (''source'', str_lit ''Indeed'')] = IndeedScraper_fields \<and>
   map fst [(''title'', str_lit ''Analyst''), (''company'', str_lit ''Initech''),
            (''location'', str_lit ''Bergen''), (''salary'', str_lit ''$90,000''),
            (''source'', str_lit ''Indeed'')] = IndeedScraper_fields"
proof -
  note t = scrape_job_listings_records_complete[of ascii_db "server_status 200 indeed_page"
      example_url 1 first_world
      "[[(''title'', str_lit ''Data Engineer''), (''company'', str_lit ''Acme, Inc.''),
             (''location'', str_lit ''Oslo''), (''salary'', str_lit ''Not specified''),
             (''source'', str_lit ''Indeed'')],
            [(''title'', str_lit ''Analyst''), (''company'', str_lit ''Initech''),
             (''location'', str_lit ''Bergen''), (''salary'', str_lit ''$90,000''),
             (''source'', str_lit ''Indeed'')]]"]
  note b = t[THEN conjunct1, THEN mp, OF indeed_page_listing]
  have r1: "map fst [(''title'', str_lit ''Data Engineer''), (''company'', str_lit ''Acme, Inc.''),
            (''location'', str_lit ''Oslo''), (''salary'', str_lit ''Not specified''),
            (''source'', str_lit ''Indeed'')] = IndeedScraper_fields"
    using b[THEN bspec, of "[(''title'', str_lit ''Data Engineer''), (''company'', str_lit ''Acme, Inc.''),
            (''location'', str_lit ''Oslo''), (''salary'', str_lit ''Not specified''),
            (''source'', str_lit ''Indeed'')]"]
    by simp
  have r2: "map fst [(''title'', str_lit ''Analyst''), (''company'', str_lit ''Initech''),
            (''location'', str_lit ''Bergen''), (''salary'', str_lit ''$90,000''),
            (''source'', str_lit ''Indeed'')] = IndeedScraper_fields"
    using b[THEN bspec, of "[(''title'', str_lit ''Analyst''), (''company'', str_lit ''Initech''),
            (''location'', str_lit ''Bergen''), (''salary'', str_lit ''$90,000''),
            (''source'', str_lit ''Indeed'')]"]
    by simp
  from indeed_page_listing r1 r2 show ?thesis by (intro conjI)
qed

text \<open>
  Claim C9: for either site, \<open>scrape_job_listings\<close> with \<open>max_pages = N\<close> returns the
  records of the pages in the order of the page index and, within a page, in the order of
  its job cards: the list is the concatenation, over the pages fetched in order, of the
  non-empty records of each page's cards. One document or failure comes from each of the
  \<open>N\<close> pages, and the URLs requested are those of the pages \<open>0\<close> to \<open>N - 1\<close> in
  order, each asked for between one and three times (the retries of the fetch client).
\<close>

theorem scrape_job_listings_page_order:
  assumes "sc = IndeedScraper \<or> sc = LinkedInScraper"
  shows "scrape_job_listings sc db srv url max_pages w =
       (Inr (concat (map (page_records sc db) (fst (fetch_pages sc srv url (py_range max_pages) w)))),
        snd (fetch_pages sc srv url (py_range max_pages) w)) \<and>
     length (fst (fetch_pages sc srv url (py_range max_pages) w)) = nat max_pages \<and>
     (\<exists>ks. length ks = nat max_pages \<and> (\<forall>k\<in>set ks. 1 \<le> k \<and> k \<le> 3) \<and>
        requested (trace (snd (scrape_job_listings sc db srv url max_pages w)))
          = requested (trace w)
            @ concat (map2 (\<lambda>page k. replicate k (page_url sc url page)) (py_range max_pages) ks))"
proof -
  from assms have t: "\<forall>el. \<exists>r. extract_job_data sc db el = Inr r"
    using IndeedScraper_dispatch_returns[of db] LinkedInScraper_dispatch_returns[of db] by blast
  have l: "length (py_range max_pages) = nat max_pages" by (simp add: py_range_def)
  show ?thesis
    using fetch_pages_requested[where pages = "py_range max_pages" and sc = sc and url = url
        and srv = srv and w = w]
      length_fetch_pages[of sc srv url "py_range max_pages" w]
    by (simp add: scrape_job_listings_fetch[OF t] l)
qed

text \<open>
  Claim C9, an instance: two Indeed pages, against a server that answers the first request
  with a page of three cards and lets every later request time out. The list has the two
  records of the first page in card order; the first page is requested once and the second
  three times.
\<close>

theorem scrape_job_listings_page_order_witness:
  "(IndeedScraper = IndeedScraper \<or> IndeedScraper = LinkedInScraper) \<and>
   fst (scrape_job_listings IndeedScraper ascii_db (server_once indeed_page) example_url 2 first_world)
     = Inr (concat (map (page_records IndeedScraper ascii_db)
         (fst (fetch_pages IndeedScraper (server_once indeed_page) example_url (py_range 2) first_world)))) \<and>
   fst (scrape_job_listings IndeedScraper ascii_db (server_once indeed_page) example_url 2 first_world)
     = Inr [[(''title'', str_lit ''Data Engineer''), (''company'', str_lit ''Acme, Inc.''),
             (''location'', str_lit ''Oslo''), (''salary'', str_lit ''Not specified''),
             (''source'', str_lit ''Indeed'')],
            [(''title'', str_lit ''Analyst''), (''company'', str_lit ''Initech''),
             (''location'', str_lit ''Bergen''), (''salary'', str_lit ''$90,000''),
             (''source'', str_lit ''Indeed'')]] \<and>
   requested (trace (snd (scrape_job_listings IndeedScraper ascii_db (server_once indeed_page)
       example_url 2 first_world)))
     = [str_lit ''https://example.org/jobs?q=data&start=0'',
        str_lit ''https://example.org/jobs?q=data&start=10'',
        str_lit ''https://example.org/jobs?q=data&start=10'',
        str_lit ''https://example.org/jobs?q=data&start=10'']"
proof -
  note t = scrape_job_listings_page_order[of IndeedScraper ascii_db "server_once indeed_page"
      example_url 2 first_world]
  have a: "fst (scrape_job_listings IndeedScraper ascii_db (server_once indeed_page) example_url 2 first_world)
     = Inr (concat (map (page_records IndeedScraper ascii_db)
         (fst (fetch_pages IndeedScraper (server_once indeed_page) example_url (py_range 2) first_world))))"
    using t by simp
  have b: "fst (scrape_job_listings IndeedScraper ascii_db (server_once indeed_page) example_url 2 first_world)
     = Inr [[(''title'', str_lit ''Data Engineer''), (''company'', str_lit ''Acme, Inc.''),
             (''location'', str_lit ''Oslo''), (''salary'', str_lit ''Not specified''),
             (''source'', str_lit ''Indeed'')],
            [(''title'', str_lit ''Analyst''), (''company'', str_lit ''Initech''),
             (''location'', str_lit ''Bergen''), (''salary'', str_lit ''$90,000''),
             (''source'', str_lit ''Indeed'')]]"
    by (simp add: indeed_flaky_listing)
  have c: "requested (trace (snd (scrape_job_listings IndeedScraper ascii_db (server_once indeed_page)
       example_url 2 first_world)))
     = [str_lit ''https://example.org/jobs?q=data&start=0'',
        str_lit ''https://example.org/jobs?q=data&start=10'',
        str_lit ''https://example.org/jobs?q=data&start=10'',
        str_lit ''https://example.org/jobs?q=data&start=10'']"
    by (simp add: indeed_flaky_listing requested_simps)
  show ?thesis using a b c by blast
qed

end
